theory Spec2Isabelle
  imports Complex_Main "HOL-Library.Multiset"
begin

section \<open>Data model\<close>

text \<open>
  The store is the MySQL schema of \<^verbatim>\<open>database.js\<close>, one list of rows per table, in
  table order. Quantities and amounts are JavaScript numbers and \<^verbatim>\<open>DECIMAL(10, 2)\<close>
  columns; both are modelled as exact rationals, so binary rounding and the rounding of
  the column type are outside the model. Instants are milliseconds since the epoch
  (what \<^verbatim>\<open>new Date(x).getTime()\<close> gives), dates are day numbers.
\<close>

datatype payment_method = Spot | Monthly | Gateway | BankTransfer | Cash | Cheque

datatype supply_payment_status = Paid | Unpaid

datatype payment_status = Pending | Completed | Failed | Cancelled | Refunded

datatype role = Supplier | Staff | Manager | Admin

datatype user_status = Active | Inactive | PendingApproval

record supply_record =
  sr_id :: nat
  sr_supply_id :: "string option"
  sr_supplier_id :: nat
  sr_quantity_kg :: rat
  sr_remaining_quantity_kg :: rat
  sr_unit_price :: rat
  sr_total_payment :: rat
  sr_payment_method :: payment_method
  sr_payment_status :: supply_payment_status
  sr_supply_date :: int
  sr_notes :: "string option"
  sr_created_at :: int
  sr_updated_at :: int

record user =
  u_id :: nat
  u_name :: string
  u_role :: role
  u_status :: user_status
  u_supplier_id :: "string option"
  u_account_number :: "string option"
  u_created_at :: int
  u_updated_at :: int

record inventory =
  inv_id :: nat
  inv_inventoryid :: string
  inv_quantity :: rat
  inv_createdAt :: int
  inv_updatedAt :: int

record production =
  prod_id :: nat
  prod_production_id :: string
  prod_quantity :: int
  prod_production_date :: int

record payment =
  p_id :: nat
  p_payment_id :: string
  p_supply_record_id :: nat
  p_supplier_id :: nat
  p_amount :: rat
  p_payment_status :: payment_status
  p_payment_date :: "int option"
  p_created_at :: int

record store =
  users :: "user list"
  supply_records :: "supply_record list"
  inventory_rows :: "inventory list"
  production_data :: "production list"
  payments :: "payment list"

text \<open>
  The messages of the \<^verbatim>\<open>Error\<close>s the models throw and of the 4xx/5xx responses the
  controllers send, one constructor per message.
\<close>

datatype error =
    SupplyRecordNotFound
  | EditWindowExpired
  | DeleteWindowExpired
  | NoFieldsToUpdate
  | FailedToDeleteSupplyRecord
  | QuantityRequired
  | InsufficientSupply rat rat
  | InventoryIdExhausted
  | InternalServerError
  | QuantityAndDateRequired
  | QuantityNotPositive
  | InsufficientInventory rat int
  | NoResponse
  | FailedToCreateSupplyRecord
  | SupplyFieldsRequired
  | InvalidSupplierId

section \<open>Supply ledger: the 15-minute edit window\<close>

text \<open>
  \<^verbatim>\<open>timeDifference = (currentTime - createdAt) / (1000 * 60)\<close>, in minutes, compared
  with \<^verbatim>\<open>timeDifference > 15\<close>.
\<close>

definition timeDifference :: "int \<Rightarrow> int \<Rightarrow> rat" where
  "timeDifference currentTime createdAt = of_int (currentTime - createdAt) / (1000 * 60)"

text \<open>
  The partial update \<^verbatim>\<open>data\<close>: a key that is absent (or \<^verbatim>\<open>undefined\<close>) is
  \<open>None\<close>. The key \<^verbatim>\<open>quantity\<close> is written to the column \<^verbatim>\<open>quantity_kg\<close>.
\<close>

record supply_update =
  upd_quantity :: "rat option"
  upd_unit_price :: "rat option"
  upd_total_payment :: "rat option"
  upd_payment_method :: "payment_method option"
  upd_payment_status :: "supply_payment_status option"
  upd_supply_date :: "int option"
  upd_notes :: "string option"

definition no_fields :: "supply_update \<Rightarrow> bool" where
  "no_fields d \<longleftrightarrow>
     upd_quantity d = None \<and> upd_unit_price d = None \<and> upd_total_payment d = None \<and>
     upd_payment_method d = None \<and> upd_payment_status d = None \<and>
     upd_supply_date d = None \<and> upd_notes d = None"

definition or_else :: "'a option \<Rightarrow> 'a \<Rightarrow> 'a" where
  "or_else v d = (case v of None \<Rightarrow> d | Some x \<Rightarrow> x)"

definition apply_update :: "supply_update \<Rightarrow> int \<Rightarrow> supply_record \<Rightarrow> supply_record" where
  "apply_update d now r =
     r\<lparr>sr_quantity_kg := or_else (upd_quantity d) (sr_quantity_kg r),
       sr_unit_price := or_else (upd_unit_price d) (sr_unit_price r),
       sr_total_payment := or_else (upd_total_payment d) (sr_total_payment r),
       sr_payment_method := or_else (upd_payment_method d) (sr_payment_method r),
       sr_payment_status := or_else (upd_payment_status d) (sr_payment_status r),
       sr_supply_date := or_else (upd_supply_date d) (sr_supply_date r),
       sr_notes := (case upd_notes d of None \<Rightarrow> sr_notes r | Some n \<Rightarrow> Some n),
       sr_updated_at := now\<rparr>"

definition find_supply :: "store \<Rightarrow> nat \<Rightarrow> supply_record option" where
  "find_supply st i = find (\<lambda>r. sr_id r = i) (supply_records st)"

text \<open>
  \<^verbatim>\<open>updateSupplyRecord(id, data)\<close>: the record is looked up, the window is checked,
  the fields are collected, the row is updated and read back. The \<^verbatim>\<open>catch\<close> rethrows
  the message it caught.
\<close>

definition updateSupplyRecord ::
  "store \<Rightarrow> int \<Rightarrow> nat \<Rightarrow> supply_update \<Rightarrow> error + (supply_record \<times> store)" where
  "updateSupplyRecord st now i d =
     (case find_supply st i of
        None \<Rightarrow> Inl SupplyRecordNotFound
      | Some existing \<Rightarrow>
          if timeDifference now (sr_created_at existing) > 15 then Inl EditWindowExpired
          else if no_fields d then Inl NoFieldsToUpdate
          else
            let st' = st\<lparr>supply_records :=
                      map (\<lambda>r. if sr_id r = i then apply_update d now r else r)
                        (supply_records st)\<rparr>
            in (case find_supply st' i of
                  None \<Rightarrow> Inl SupplyRecordNotFound
                | Some r \<Rightarrow> Inr (r, st')))"

text \<open>
  \<^verbatim>\<open>deleteSupplyRecord(id)\<close>: the same lookup and the same window check, but its
  \<^verbatim>\<open>catch\<close> replaces every error by \<^verbatim>\<open>"Failed to delete supply record"\<close>. The
  inner error is kept in \<open>deleteSupplyRecord_inner\<close>. Payments reference supply
  records \<^verbatim>\<open>ON DELETE CASCADE\<close>.
\<close>

definition deleteSupplyRecord_inner :: "store \<Rightarrow> int \<Rightarrow> nat \<Rightarrow> error + store" where
  "deleteSupplyRecord_inner st now i =
     (case find_supply st i of
        None \<Rightarrow> Inl SupplyRecordNotFound
      | Some existing \<Rightarrow>
          if timeDifference now (sr_created_at existing) > 15 then Inl DeleteWindowExpired
          else Inr (st\<lparr>supply_records := filter (\<lambda>r. sr_id r \<noteq> i) (supply_records st),
                        payments := filter (\<lambda>p. p_supply_record_id p \<noteq> i) (payments st)\<rparr>))"

definition deleteSupplyRecord :: "store \<Rightarrow> int \<Rightarrow> nat \<Rightarrow> error + store" where
  "deleteSupplyRecord st now i =
     (case deleteSupplyRecord_inner st now i of
        Inl e \<Rightarrow> Inl FailedToDeleteSupplyRecord
      | Inr st' \<Rightarrow> Inr st')"

section \<open>Identifier generator\<close>

text \<open>
  Strings of decimal digits: \<^verbatim>\<open>Number.prototype.toString()\<close> on a non-negative
  integer, \<^verbatim>\<open>String.prototype.padStart\<close>, \<^verbatim>\<open>slice(-n)\<close>, and
  \<^verbatim>\<open>parseInt\<close> on a string of digits.
\<close>

definition digit_char :: "nat \<Rightarrow> char" where
  "digit_char d = ''0123456789'' ! d"

definition digit_val :: "char \<Rightarrow> nat" where
  "digit_val c = of_char c - 48"

definition is_digit :: "char \<Rightarrow> bool" where
  "is_digit c \<longleftrightarrow> 48 \<le> (of_char c :: nat) \<and> (of_char c :: nat) \<le> 57"

fun toString :: "nat \<Rightarrow> string" where
  "toString n = (if n < 10 then [digit_char n]
                 else toString (n div 10) @ [digit_char (n mod 10)])"

declare toString.simps [simp del]

definition padStart :: "nat \<Rightarrow> char \<Rightarrow> string \<Rightarrow> string" where
  "padStart n c s = replicate (n - length s) c @ s"

definition slice_last :: "nat \<Rightarrow> string \<Rightarrow> string" where
  "slice_last n s = drop (length s - n) s"

definition parseDigits :: "string \<Rightarrow> nat" where
  "parseDigits s = foldl (\<lambda>acc c. 10 * acc + digit_val c) 0 s"

text \<open>
  The local wall clock, as \<^verbatim>\<open>new Date()\<close> gives it: \<open>wc_month\<close> is
  \<^verbatim>\<open>getMonth() + 1\<close>.
\<close>

record wall_clock =
  wc_year :: nat
  wc_month :: nat
  wc_day :: nat
  wc_hours :: nat
  wc_minutes :: nat

definition stamp :: "wall_clock \<Rightarrow> string" where
  "stamp now = toString (wc_year now) @ padStart 2 CHR ''0'' (toString (wc_month now))
     @ padStart 2 CHR ''0'' (toString (wc_day now)) @ ''-''
     @ padStart 2 CHR ''0'' (toString (wc_hours now))
     @ padStart 2 CHR ''0'' (toString (wc_minutes now))"

subsection \<open>Supply ids: \<^verbatim>\<open>SUP-YYYYMMDD-HHMM[-NN]\<close>\<close>

definition supplyIdExists :: "store \<Rightarrow> string \<Rightarrow> bool" where
  "supplyIdExists st supplyId \<longleftrightarrow>
     (\<exists>r \<in> set (supply_records st). sr_supply_id r = Some supplyId)"

text \<open>
  \<^verbatim>\<open>while (await this.supplyIdExists(supplyId)) { supplyId = `${baseId}-${counter
  .toString().padStart(2, "0")}`; counter++; }\<close> The loop has no bound of its own; it ends
  because the table is finite and the candidates are pairwise different.
\<close>

function generateSupplyId_loop :: "store \<Rightarrow> string \<Rightarrow> string \<Rightarrow> nat \<Rightarrow> string" where
  "generateSupplyId_loop st baseId supplyId counter =
     (if supplyIdExists st supplyId
      then generateSupplyId_loop st baseId
             (baseId @ ''-'' @ padStart 2 CHR ''0'' (toString counter)) (counter + 1)
      else supplyId)"
  by pat_completeness auto

definition generateSupplyId :: "store \<Rightarrow> wall_clock \<Rightarrow> string" where
  "generateSupplyId st now =
     generateSupplyId_loop st (''SUP-'' @ stamp now) (''SUP-'' @ stamp now) 1"

subsection \<open>Supplier ids: \<^verbatim>\<open>SUP000001\<close>\<close>

text \<open>
  What the process cannot decide: whether the scan query and the existence queries
  throw, and \<^verbatim>\<open>Date.now()\<close>.
\<close>

record id_env =
  env_scan_fails :: bool
  env_exists_fails :: bool
  env_epoch_ms :: nat

text \<open>\<^verbatim>\<open>supplier_id REGEXP '^SUP[0-9]{6}$'\<close>\<close>

definition conforming :: "string \<Rightarrow> bool" where
  "conforming s \<longleftrightarrow> length s = 9 \<and> take 3 s = ''SUP'' \<and> list_all is_digit (drop 3 s)"

text \<open>
  The scan: the supplier ids of the suppliers that are neither \<^verbatim>\<open>NULL\<close> nor empty and
  match the pattern. (The query orders them by number, descending; the loop below
  takes the maximum whatever the order.)
\<close>

definition scan_supplier_ids :: "store \<Rightarrow> string list" where
  "scan_supplier_ids st =
     concat (map (\<lambda>u. case u_supplier_id u of
                         None \<Rightarrow> []
                       | Some s \<Rightarrow> if u_role u = Supplier \<and> s \<noteq> [] \<and> conforming s then [s] else [])
                 (users st))"

text \<open>
  \<^verbatim>\<open>row.supplier_id.match(/SUP(\d{6})/)\<close> then \<^verbatim>\<open>parseInt(match[1])\<close>: on a row of
  the scan the match is the whole id and the group its last six characters.
\<close>

definition id_number :: "string \<Rightarrow> nat" where
  "id_number s = parseDigits (take 6 (drop 3 s))"

definition maxNumber :: "string list \<Rightarrow> nat" where
  "maxNumber rows = foldl (\<lambda>m s. if id_number s > m then id_number s else m) 0 rows"

definition supplierIdExists :: "store \<Rightarrow> id_env \<Rightarrow> string \<Rightarrow> bool" where
  "supplierIdExists st env supplierId \<longleftrightarrow>
     (if env_exists_fails env then False
      else (\<exists>u \<in> set (users st). u_supplier_id u = Some supplierId \<and> u_role u = Supplier))"

definition supplier_candidate :: "nat \<Rightarrow> string" where
  "supplier_candidate n = ''SUP'' @ padStart 6 CHR ''0'' (toString n)"

text \<open>
  \<^verbatim>\<open>while (attempts < 10)\<close>: the result is the last candidate and the number of
  attempts that found their candidate taken.
\<close>

function supplierId_attempts ::
  "store \<Rightarrow> id_env \<Rightarrow> nat \<Rightarrow> nat \<Rightarrow> string \<Rightarrow> string \<times> nat" where
  "supplierId_attempts st env nextNumber attempts supplierId =
     (if attempts < 10 then
        (if \<not> supplierIdExists st env (supplier_candidate (nextNumber + attempts))
         then (supplier_candidate (nextNumber + attempts), attempts)
         else supplierId_attempts st env nextNumber (attempts + 1)
                (supplier_candidate (nextNumber + attempts)))
      else (supplierId, attempts))"
  by pat_completeness auto
termination
  by (relation "measure (\<lambda>(st, env, nextNumber, attempts, supplierId). 10 - attempts)") auto

declare supplierId_attempts.simps [simp del]

definition fallbackId :: "id_env \<Rightarrow> string" where
  "fallbackId env = ''SUP'' @ slice_last 6 (toString (env_epoch_ms env))"

definition generateSupplierId :: "store \<Rightarrow> id_env \<Rightarrow> string" where
  "generateSupplierId st env =
     (if env_scan_fails env then fallbackId env
      else
        let rows = scan_supplier_ids st;
            nextNumber = (if rows \<noteq> [] then maxNumber rows + 1 else 1);
            (supplierId, attempts) = supplierId_attempts st env nextNumber 0 []
        in if supplierId = [] \<or> take 3 supplierId \<noteq> ''SUP'' then fallbackId env
           else if attempts \<ge> 10 then fallbackId env
           else supplierId)"

section \<open>Supplier directory and supply listing\<close>









section \<open>Stock pool\<close>

text \<open>
  A number of a request body: \<open>None\<close> when the key is absent. \<^verbatim>\<open>!v\<close> holds of an
  absent key and of 0.
\<close>

definition truthy :: "rat option \<Rightarrow> bool" where
  "truthy v \<longleftrightarrow> v \<noteq> None \<and> v \<noteq> Some 0"

text \<open>\<^verbatim>\<open>AUTO_INCREMENT\<close>: an id above every id of the table.\<close>

definition next_id :: "nat list \<Rightarrow> nat" where
  "next_id ids = Suc (fold max ids 0)"

subsection \<open>Inventory creation\<close>






text \<open>
  \<^verbatim>\<open>UPDATE supply_records SET quantity_kg = ?, updated_at = NOW() WHERE id = ?\<close>
\<close>

definition update_supply_quantity :: "store \<Rightarrow> int \<Rightarrow> nat \<Rightarrow> rat \<Rightarrow> store" where
  "update_supply_quantity st now i newQuantity =
     st\<lparr>supply_records :=
          map (\<lambda>r. if sr_id r = i then r\<lparr>sr_quantity_kg := newQuantity, sr_updated_at := now\<rparr>
                    else r) (supply_records st)\<rparr>"

text \<open>
  The deduction loop of \<^verbatim>\<open>createInventory\<close> over the sorted rows it has read; the
  result is \<^verbatim>\<open>remainingToDeduct\<close> and the store.
\<close>

fun deduct_supply :: "int \<Rightarrow> supply_record list \<Rightarrow> rat \<Rightarrow> store \<Rightarrow> rat \<times> store" where
  "deduct_supply now [] remainingToDeduct st = (remainingToDeduct, st)"
| "deduct_supply now (record # rest) remainingToDeduct st =
     (if remainingToDeduct \<le> 0 then (remainingToDeduct, st)
      else
        let availableInRecord = sr_quantity_kg record
        in if availableInRecord > 0 then
             (let deductAmount = min availableInRecord remainingToDeduct;
                  newQuantity = availableInRecord - deductAmount
              in deduct_supply now rest (remainingToDeduct - deductAmount)
                   (update_supply_quantity st now (sr_id record) newQuantity))
           else deduct_supply now rest remainingToDeduct st)"





subsection \<open>Production creation\<close>











section \<open>Supply ledger: creating a supply record\<close>

record supply_data =
  d_supplier_id :: nat
  d_quantity :: rat
  d_unit_price :: rat
  d_total_payment :: rat
  d_payment_method :: payment_method
  d_payment_status :: supply_payment_status
  d_supply_date :: int
  d_notes :: "string option"

text \<open>
  \<^verbatim>\<open>SupplierModel.createSupplyRecord(data)\<close>. The \<^verbatim>\<open>INSERT\<close> names ten columns;
  \<^verbatim>\<open>remaining_quantity_kg\<close> is not among them and takes the column's
  \<^verbatim>\<open>DEFAULT 0\<close>. The insert throws when \<^verbatim>\<open>supplier_id\<close> references no user
  (foreign key); the \<^verbatim>\<open>catch\<close> turns that into "Failed to create supply record". The
  result is the supply id and the store.
\<close>

definition SupplierModel_createSupplyRecord ::
  "store \<Rightarrow> wall_clock \<Rightarrow> int \<Rightarrow> supply_data \<Rightarrow> error + (string \<times> store)" where
  "SupplierModel_createSupplyRecord st clock now data =
     (let supplyId = generateSupplyId st clock
      in if \<not> (\<exists>u \<in> set (users st). u_id u = d_supplier_id data)
         then Inl FailedToCreateSupplyRecord
         else Inr (supplyId,
                st\<lparr>supply_records := supply_records st @
                  [\<lparr>sr_id = next_id (map sr_id (supply_records st)),
                    sr_supply_id = Some supplyId,
                    sr_supplier_id = d_supplier_id data,
                    sr_quantity_kg = d_quantity data,
                    sr_remaining_quantity_kg = 0,
                    sr_unit_price = d_unit_price data,
                    sr_total_payment = d_total_payment data,
                    sr_payment_method = d_payment_method data,
                    sr_payment_status = d_payment_status data,
                    sr_supply_date = d_supply_date data,
                    sr_notes = d_notes data,
                    sr_created_at = now,
                    sr_updated_at = now\<rparr>]\<rparr>))"

record supply_body =
  sb_supplier_id :: "nat option"
  sb_quantity :: "rat option"
  sb_quantity_kg :: "rat option"
  sb_unit_price :: "rat option"
  sb_payment_method :: "payment_method option"
  sb_payment_status :: "supply_payment_status option"
  sb_supply_date :: "int option"
  sb_notes :: "string option"

text \<open>
  \<^verbatim>\<open>SupplierController.createSupplyRecord\<close>, the only caller: it validates, computes
  \<^verbatim>\<open>total_payment = parseFloat(finalQuantity) * parseFloat(unit_price)\<close>, checks the
  supplier with \<^verbatim>\<open>SupplierModel.findById\<close> (a user of role supplier) and calls the
  model.
\<close>

definition SupplierController_createSupplyRecord ::
  "store \<Rightarrow> wall_clock \<Rightarrow> int \<Rightarrow> supply_body \<Rightarrow> error + (string \<times> store)" where
  "SupplierController_createSupplyRecord st clock now body =
     (let finalQuantity = (if truthy (sb_quantity_kg body) then sb_quantity_kg body
                           else sb_quantity body)
      in if sb_supplier_id body = None \<or> sb_supplier_id body = Some 0 \<or> \<not> truthy finalQuantity
            \<or> \<not> truthy (sb_unit_price body) \<or> sb_supply_date body = None
         then Inl SupplyFieldsRequired
         else
           let total_payment = the finalQuantity * the (sb_unit_price body)
           in if \<not> (\<exists>u \<in> set (users st). u_id u = the (sb_supplier_id body) \<and> u_role u = Supplier)
              then Inl InvalidSupplierId
              else SupplierModel_createSupplyRecord st clock now
                     \<lparr>d_supplier_id = the (sb_supplier_id body),
                      d_quantity = the finalQuantity,
                      d_unit_price = the (sb_unit_price body),
                      d_total_payment = total_payment,
                      d_payment_method = or_else (sb_payment_method body) Spot,
                      d_payment_status = or_else (sb_payment_status body) Unpaid,
                      d_supply_date = the (sb_supply_date body),
                      d_notes = sb_notes body\<rparr>)"


section \<open>Payment reconciler\<close>

record payment_filters =
  f_supplier_id :: "nat option"
  f_date_from :: "int option"
  f_date_to :: "int option"
  f_search :: "string option"
  f_limit :: "nat option"

datatype source = FromPayment | FromSupplyRecord

record payment_entry =
  e_source :: source
  e_id :: "nat option"
  e_payment_id :: "string option"
  e_supply_record_id :: nat
  e_supplier_id :: nat
  e_amount :: rat
  e_payment_status :: payment_status
  e_created_at :: int

text \<open>\<^verbatim>\<open>DATE(x)\<close> of an instant: its day number.\<close>

definition DATE :: "int \<Rightarrow> int" where
  "DATE ms = ms div 86400000"

text \<open>
  \<^verbatim>\<open>x LIKE '%term%'\<close> as containment of the term; \<^verbatim>\<open>NULL LIKE ...\<close> is not true.
  The wildcards a term may itself contain and the collation are outside the model.
\<close>

fun contains :: "string \<Rightarrow> string \<Rightarrow> bool" where
  "contains t [] = (t = [])"
| "contains t (c # cs) = (take (length t) (c # cs) = t \<or> contains t cs)"

definition like :: "string option \<Rightarrow> string \<Rightarrow> bool" where
  "like x t = (case x of None \<Rightarrow> False | Some v \<Rightarrow> contains t v)"

definition user_name :: "store \<Rightarrow> nat \<Rightarrow> string option" where
  "user_name st i = map_option u_name (find (\<lambda>u. u_id u = i) (users st))"

definition given :: "nat option \<Rightarrow> bool" where
  "given v \<longleftrightarrow> v \<noteq> None \<and> v \<noteq> Some 0"

definition given_text :: "string option \<Rightarrow> bool" where
  "given_text v \<longleftrightarrow> v \<noteq> None \<and> v \<noteq> Some []"

definition payment_matches :: "store \<Rightarrow> payment_filters \<Rightarrow> payment \<Rightarrow> bool" where
  "payment_matches st filters p \<longleftrightarrow>
     (given (f_supplier_id filters) \<longrightarrow> p_supplier_id p = the (f_supplier_id filters)) \<and>
     (f_date_from filters \<noteq> None \<longrightarrow> DATE (p_created_at p) \<ge> the (f_date_from filters)) \<and>
     (f_date_to filters \<noteq> None \<longrightarrow> DATE (p_created_at p) \<le> the (f_date_to filters)) \<and>
     (given_text (f_search filters) \<longrightarrow>
        like (Some (p_payment_id p)) (the (f_search filters))
        \<or> like (user_name st (p_supplier_id p)) (the (f_search filters)))"

definition supply_matches :: "store \<Rightarrow> payment_filters \<Rightarrow> supply_record \<Rightarrow> bool" where
  "supply_matches st filters sr \<longleftrightarrow>
     (given (f_supplier_id filters) \<longrightarrow> sr_supplier_id sr = the (f_supplier_id filters)) \<and>
     (f_date_from filters \<noteq> None \<longrightarrow> sr_supply_date sr \<ge> the (f_date_from filters)) \<and>
     (f_date_to filters \<noteq> None \<longrightarrow> sr_supply_date sr \<le> the (f_date_to filters)) \<and>
     (given_text (f_search filters) \<longrightarrow>
        like (sr_supply_id sr) (the (f_search filters))
        \<or> like (user_name st (sr_supplier_id sr)) (the (f_search filters)))"

text \<open>\<^verbatim>\<open>NOT EXISTS (SELECT 1 FROM payments p2 WHERE p2.supply_record_id = sr.id)\<close>\<close>

definition has_payment :: "store \<Rightarrow> nat \<Rightarrow> bool" where
  "has_payment st i \<longleftrightarrow> (\<exists>p2 \<in> set (payments st). p_supply_record_id p2 = i)"

definition limited :: "payment_filters \<Rightarrow> 'a list \<Rightarrow> 'a list" where
  "limited filters rows = (if given (f_limit filters) then take (the (f_limit filters)) rows else rows)"

definition payment_row :: "payment \<Rightarrow> payment_entry" where
  "payment_row p =
     \<lparr>e_source = FromPayment, e_id = Some (p_id p), e_payment_id = Some (p_payment_id p),
      e_supply_record_id = p_supply_record_id p, e_supplier_id = p_supplier_id p,
      e_amount = p_amount p, e_payment_status = p_payment_status p,
      e_created_at = p_created_at p\<rparr>"

definition supply_row :: "supply_record \<Rightarrow> payment_entry" where
  "supply_row sr =
     \<lparr>e_source = FromSupplyRecord, e_id = None, e_payment_id = None,
      e_supply_record_id = sr_id sr, e_supplier_id = sr_supplier_id sr,
      e_amount = sr_total_payment sr,
      e_payment_status = (if sr_payment_status sr = Paid then Completed else Pending),
      e_created_at = sr_created_at sr\<rparr>"

text \<open>
  \<^verbatim>\<open>PaymentModel.findAllPayments(filters)\<close>: the payments query, the supply-records
  query, both \<^verbatim>\<open>ORDER BY created_at DESC\<close> with the limit, then the concatenation
  sorted by \<^verbatim>\<open>db - da\<close> and sliced to the limit.
\<close>

definition findAllPayments :: "store \<Rightarrow> payment_filters \<Rightarrow> payment_entry list" where
  "findAllPayments st filters =
     (let pRows = map payment_row
            (limited filters (rev (sort_key p_created_at
               (filter (payment_matches st filters) (payments st)))));
          srRows = map supply_row
            (limited filters (rev (sort_key sr_created_at
               (filter (\<lambda>sr. sr_payment_status sr \<noteq> Paid \<and> \<not> has_payment st (sr_id sr)
                               \<and> supply_matches st filters sr) (supply_records st)))));
          combined = sort_key (\<lambda>e. - e_created_at e) (pRows @ srRows)
      in limited filters combined)"

record payment_statistics =
  total_payments :: nat
  total_completed_amount :: rat
  total_pending_amount :: rat
  total_failed_amount :: rat
  completed_count :: nat
  pending_count :: nat
  failed_count :: nat
  avg_payment_amount :: "rat option"

definition stat_payment_matches :: "payment_filters \<Rightarrow> payment \<Rightarrow> bool" where
  "stat_payment_matches filters p \<longleftrightarrow>
     (f_date_from filters \<noteq> None \<longrightarrow> DATE (p_created_at p) \<ge> the (f_date_from filters)) \<and>
     (f_date_to filters \<noteq> None \<longrightarrow> DATE (p_created_at p) \<le> the (f_date_to filters)) \<and>
     (given (f_supplier_id filters) \<longrightarrow> p_supplier_id p = the (f_supplier_id filters))"

definition stat_supply_matches :: "payment_filters \<Rightarrow> supply_record \<Rightarrow> bool" where
  "stat_supply_matches filters sr \<longleftrightarrow>
     (f_date_from filters \<noteq> None \<longrightarrow> sr_supply_date sr \<ge> the (f_date_from filters)) \<and>
     (f_date_to filters \<noteq> None \<longrightarrow> sr_supply_date sr \<le> the (f_date_to filters)) \<and>
     (given (f_supplier_id filters) \<longrightarrow> sr_supplier_id sr = the (f_supplier_id filters))"

text \<open>\<^verbatim>\<open>SUM(CASE WHEN c THEN x ELSE 0 END)\<close> and \<^verbatim>\<open>COUNT(CASE WHEN c THEN 1 END)\<close>\<close>

definition SUM_when :: "('a \<Rightarrow> bool) \<Rightarrow> ('a \<Rightarrow> rat) \<Rightarrow> 'a list \<Rightarrow> rat" where
  "SUM_when c x rows = sum_list (map (\<lambda>r. if c r then x r else 0) rows)"

definition COUNT_when :: "('a \<Rightarrow> bool) \<Rightarrow> 'a list \<Rightarrow> nat" where
  "COUNT_when c rows = length (filter c rows)"

text \<open>
  \<^verbatim>\<open>PaymentModel.getPaymentStatistics(filters)\<close>: one aggregate over \<^verbatim>\<open>payments\<close>, one
  over \<^verbatim>\<open>supply_records\<close> (every record the filters admit), added field by field.
\<close>

definition getPaymentStatistics :: "store \<Rightarrow> payment_filters \<Rightarrow> payment_statistics" where
  "getPaymentStatistics st filters =
     (let ps = filter (stat_payment_matches filters) (payments st);
          srs = filter (stat_supply_matches filters) (supply_records st);
          completed = filter (\<lambda>p. p_payment_status p = Completed) ps
      in \<lparr>total_payments = length ps + COUNT_when (\<lambda>sr. sr_payment_status sr \<noteq> Paid) srs,
          total_completed_amount =
            SUM_when (\<lambda>p. p_payment_status p = Completed) p_amount ps
            + SUM_when (\<lambda>sr. sr_payment_status sr = Paid) sr_total_payment srs,
          total_pending_amount =
            SUM_when (\<lambda>p. p_payment_status p = Pending) p_amount ps
            + SUM_when (\<lambda>sr. sr_payment_status sr \<noteq> Paid) sr_total_payment srs,
          total_failed_amount = SUM_when (\<lambda>p. p_payment_status p = Failed) p_amount ps,
          completed_count =
            COUNT_when (\<lambda>p. p_payment_status p = Completed) ps
            + COUNT_when (\<lambda>sr. sr_payment_status sr = Paid) srs,
          pending_count =
            COUNT_when (\<lambda>p. p_payment_status p = Pending) ps
            + COUNT_when (\<lambda>sr. sr_payment_status sr \<noteq> Paid) srs,
          failed_count = COUNT_when (\<lambda>p. p_payment_status p = Failed) ps,
          avg_payment_amount =
            (if completed = [] then None
             else Some (sum_list (map p_amount completed) / of_nat (length completed)))\<rparr>)"

text \<open>
  The completed total in the specification's words: the completed payments, plus the
  paid supply records that no payment row references.
\<close>

definition completed_total_spec :: "store \<Rightarrow> rat" where
  "completed_total_spec st =
     SUM_when (\<lambda>p. p_payment_status p = Completed) p_amount (payments st)
     + SUM_when (\<lambda>sr. sr_payment_status sr = Paid \<and> \<not> has_payment st (sr_id sr))
         sr_total_payment (supply_records st)"

section \<open>Supplier lifecycle: the deactivation sweep\<close>

text \<open>
  The clock of the sweep: \<^verbatim>\<open>NOW()\<close>, and the two cutoffs the database computes,
  \<^verbatim>\<open>DATE_SUB(NOW(), INTERVAL 6 MONTH)\<close> as an instant and
  \<^verbatim>\<open>DATE_SUB(CURDATE(), INTERVAL 6 MONTH)\<close> as a day number.
\<close>

record sweep_clock =
  sc_now :: int
  sc_six_months_ago :: int
  sc_date_six_months_ago :: int

definition recent :: "store \<Rightarrow> sweep_clock \<Rightarrow> nat list" where
  "recent st clk =
     remdups (map sr_supplier_id
       (filter (\<lambda>r. sr_supply_date r \<ge> sc_date_six_months_ago clk) (supply_records st)))"

definition sweep_matches :: "store \<Rightarrow> sweep_clock \<Rightarrow> user \<Rightarrow> bool" where
  "sweep_matches st clk u \<longleftrightarrow>
     u_role u = Supplier \<and> u_status u = Active
     \<and> u_created_at u \<le> sc_six_months_ago clk
     \<and> u_id u \<notin> set (recent st clk)"

text \<open>
  \<^verbatim>\<open>deactivateOldSuppliers()\<close>: one \<^verbatim>\<open>UPDATE\<close>; the result is \<^verbatim>\<open>affectedRows\<close>.
\<close>

definition deactivateOldSuppliers :: "store \<Rightarrow> sweep_clock \<Rightarrow> nat \<times> store" where
  "deactivateOldSuppliers st clk =
     (length (filter (sweep_matches st clk) (users st)),
      st\<lparr>users := map (\<lambda>u. if sweep_matches st clk u
                             then u\<lparr>u_status := Inactive, u_updated_at := sc_now clk\<rparr>
                             else u) (users st)\<rparr>)"

section \<open>Notions the statements use\<close>





text \<open>Two supply records that differ at most in \<^verbatim>\<open>quantity_kg\<close> and \<^verbatim>\<open>updated_at\<close>.\<close>

definition same_but_quantity :: "supply_record \<Rightarrow> supply_record \<Rightarrow> bool" where
  "same_but_quantity r r' \<longleftrightarrow>
     r'\<lparr>sr_quantity_kg := 0, sr_updated_at := 0\<rparr> = r\<lparr>sr_quantity_kg := 0, sr_updated_at := 0\<rparr>"





section \<open>Example states\<close>

definition ex_record :: supply_record where
  "ex_record = \<lparr>sr_id = 3, sr_supply_id = Some ''SUP-20250101-0900'', sr_supplier_id = 7,
     sr_quantity_kg = 100, sr_remaining_quantity_kg = 100, sr_unit_price = 50,
     sr_total_payment = 5000, sr_payment_method = Spot, sr_payment_status = Unpaid,
     sr_supply_date = 20089, sr_notes = None, sr_created_at = 0, sr_updated_at = 0\<rparr>"

definition ex_store :: store where
  "ex_store = \<lparr>users = [], supply_records = [ex_record], inventory_rows = [],
     production_data = [], payments = []\<rparr>"

definition ex_update :: supply_update where
  "ex_update = \<lparr>upd_quantity = Some 80, upd_unit_price = None, upd_total_payment = Some 4000,
     upd_payment_method = None, upd_payment_status = None, upd_supply_date = None,
     upd_notes = None\<rparr>"

definition ex_record_b :: supply_record where
  "ex_record_b = \<lparr>sr_id = 4, sr_supply_id = Some ''SUP-20250101-0905'', sr_supplier_id = 7,
     sr_quantity_kg = 50, sr_remaining_quantity_kg = 50, sr_unit_price = 50,
     sr_total_payment = 2500, sr_payment_method = Spot, sr_payment_status = Unpaid,
     sr_supply_date = 20089, sr_notes = None, sr_created_at = 300000, sr_updated_at = 300000\<rparr>"

text \<open>Two deliveries, 100 kg and then 50 kg, and no inventory lot yet.\<close>

definition ex_supplies :: store where
  "ex_supplies = \<lparr>users = [], supply_records = [ex_record_b, ex_record], inventory_rows = [],
     production_data = [], payments = []\<rparr>"











text \<open>
  A supplier (user 7), a delivery of 300 that was paid through a completed payment
  (record 3), and an unpaid delivery of 120 with no payment row (record 4).
\<close>

definition ex_supplier :: user where
  "ex_supplier = \<lparr>u_id = 7, u_name = ''Nimal'', u_role = Supplier, u_status = Active,
     u_supplier_id = Some ''SUP000007'', u_account_number = Some ''0011223344'',
     u_created_at = 0, u_updated_at = 0\<rparr>"

definition ex_paid_record :: supply_record where
  "ex_paid_record = \<lparr>sr_id = 3, sr_supply_id = Some ''SUP-20250101-0900'', sr_supplier_id = 7,
     sr_quantity_kg = 6, sr_remaining_quantity_kg = 6, sr_unit_price = 50,
     sr_total_payment = 300, sr_payment_method = Spot, sr_payment_status = Paid,
     sr_supply_date = 20089, sr_notes = None, sr_created_at = 1000, sr_updated_at = 1000\<rparr>"

definition ex_unpaid_record :: supply_record where
  "ex_unpaid_record = \<lparr>sr_id = 4, sr_supply_id = Some ''SUP-20250101-0905'', sr_supplier_id = 7,
     sr_quantity_kg = 2, sr_remaining_quantity_kg = 2, sr_unit_price = 60,
     sr_total_payment = 120, sr_payment_method = Monthly, sr_payment_status = Unpaid,
     sr_supply_date = 20089, sr_notes = None, sr_created_at = 3000, sr_updated_at = 3000\<rparr>"

definition ex_payment :: payment where
  "ex_payment = \<lparr>p_id = 2, p_payment_id = ''PAY_1735722000000_042'', p_supply_record_id = 3,
     p_supplier_id = 7, p_amount = 300, p_payment_status = Completed,
     p_payment_date = Some 2000, p_created_at = 2000\<rparr>"

definition ex_ledger :: store where
  "ex_ledger = \<lparr>users = [ex_supplier], supply_records = [ex_paid_record, ex_unpaid_record],
     inventory_rows = [], production_data = [], payments = [ex_payment]\<rparr>"

definition no_filters :: payment_filters where
  "no_filters = \<lparr>f_supplier_id = None, f_date_from = None, f_date_to = None,
     f_search = None, f_limit = None\<rparr>"

text \<open>A supplier and no supply record; a request body for 100 kg at 50 per kg.\<close>

definition ex_directory :: store where
  "ex_directory = \<lparr>users = [ex_supplier], supply_records = [], inventory_rows = [],
     production_data = [], payments = []\<rparr>"


text \<open>
  The sweep at an instant whose six-month cutoff is instant 1000 and day 20000: a
  supplier created exactly at the cutoff, one created before it who delivered on the
  cutoff day, one created before it with an old delivery only, and a manager.
\<close>

definition ex_sweep_clock :: sweep_clock where
  "ex_sweep_clock = \<lparr>sc_now = 5000, sc_six_months_ago = 1000, sc_date_six_months_ago = 20000\<rparr>"

definition ex_at_cutoff :: user where
  "ex_at_cutoff = \<lparr>u_id = 11, u_name = ''Asha'', u_role = Supplier, u_status = Active,
     u_supplier_id = Some ''SUP000011'', u_account_number = None,
     u_created_at = 1000, u_updated_at = 1000\<rparr>"

definition ex_delivering :: user where
  "ex_delivering = \<lparr>u_id = 12, u_name = ''Bandu'', u_role = Supplier, u_status = Active,
     u_supplier_id = Some ''SUP000012'', u_account_number = None,
     u_created_at = 400, u_updated_at = 400\<rparr>"

definition ex_dormant :: user where
  "ex_dormant = \<lparr>u_id = 13, u_name = ''Chandra'', u_role = Supplier, u_status = Active,
     u_supplier_id = Some ''SUP000013'', u_account_number = None,
     u_created_at = 300, u_updated_at = 300\<rparr>"

definition ex_manager :: user where
  "ex_manager = \<lparr>u_id = 14, u_name = ''Dilani'', u_role = Manager, u_status = Active,
     u_supplier_id = None, u_account_number = None, u_created_at = 200, u_updated_at = 200\<rparr>"

definition ex_sweep_store :: store where
  "ex_sweep_store = \<lparr>users = [ex_at_cutoff, ex_delivering, ex_dormant, ex_manager],
     supply_records =
       [ex_record\<lparr>sr_supplier_id := 12, sr_supply_date := 20000\<rparr>,
        ex_record_b\<lparr>sr_supplier_id := 13, sr_supply_date := 19990\<rparr>],
     inventory_rows = [], production_data = [], payments = []\<rparr>"

text \<open>
  The id generator's surroundings when every query succeeds, at epoch millisecond
  1735722000123; and a directory whose only supplier holds the last six-digit id.
\<close>

definition ex_id_env :: id_env where
  "ex_id_env = \<lparr>env_scan_fails = False, env_exists_fails = False,
     env_epoch_ms = 1735722000123\<rparr>"

definition ex_last_supplier :: user where
  "ex_last_supplier = ex_supplier\<lparr>u_supplier_id := Some ''SUP999999''\<rparr>"

definition ex_full_directory :: store where
  "ex_full_directory = ex_directory\<lparr>users := [ex_last_supplier]\<rparr>"



section \<open>Proofs: digit strings and the supply-id loop\<close>

lemma below_ten:
  "(d::nat) < 10 \<Longrightarrow> d = 0 \<or> d = 1 \<or> d = 2 \<or> d = 3 \<or> d = 4 \<or> d = 5 \<or> d = 6 \<or> d = 7 \<or> d = 8 \<or> d = 9"
  by arith

lemma digit_val_digit_char:
  assumes "d < 10" shows "digit_val (digit_char d) = d"
  using below_ten [OF assms] by (elim disjE) (simp_all add: digit_val_def digit_char_def)

lemma is_digit_digit_char:
  assumes "d < 10" shows "is_digit (digit_char d)"
  using below_ten [OF assms] by (elim disjE) (simp_all add: is_digit_def digit_char_def)

lemma parseDigits_append:
  "parseDigits (xs @ ys) = foldl (\<lambda>acc c. 10 * acc + digit_val c) (parseDigits xs) ys"
  by (simp add: parseDigits_def)

lemma parseDigits_snoc: "parseDigits (xs @ [c]) = 10 * parseDigits xs + digit_val c"
  by (simp add: parseDigits_def)

lemma parseDigits_toString: "parseDigits (toString n) = n"
proof (induction n rule: toString.induct)
  case (1 n)
  show ?case
  proof (cases "n < 10")
    case True
    then show ?thesis
      by (subst toString.simps) (simp add: parseDigits_def digit_val_digit_char)
  next
    case False
    then have "parseDigits (toString (n div 10)) = n div 10" using "1.IH" by simp
    then show ?thesis
      using False
      by (subst toString.simps) (simp add: parseDigits_snoc digit_val_digit_char)
  qed
qed

lemma parseDigits_zeros: "parseDigits (replicate k CHR ''0'') = 0"
  by (induction k) (simp_all add: parseDigits_def digit_val_def)

lemma parseDigits_padStart: "parseDigits (padStart n CHR ''0'' (toString k)) = k"
proof -
  have "parseDigits (replicate m CHR ''0'' @ s) = parseDigits s" for m s
    by (simp add: parseDigits_append parseDigits_zeros) (simp add: parseDigits_def)
  then show ?thesis by (simp add: padStart_def parseDigits_toString)
qed

lemma suffix_candidates_finite:
  "finite {k. supplyIdExists st (baseId @ ''-'' @ padStart 2 CHR ''0'' (toString k))}"
proof -
  let ?cand = "\<lambda>k. baseId @ ''-'' @ padStart 2 CHR ''0'' (toString k)"
  let ?num = "\<lambda>v. case v of None \<Rightarrow> 0 | Some s \<Rightarrow> parseDigits (drop (length baseId + 1) s)"
  have "k \<in> ?num ` sr_supply_id ` set (supply_records st)" if E: "supplyIdExists st (?cand k)" for k
  proof -
    obtain r where r: "r \<in> set (supply_records st)" "sr_supply_id r = Some (?cand k)"
      using E unfolding supplyIdExists_def by blast
    have "?num (sr_supply_id r) = k"
      by (simp add: r(2) parseDigits_padStart)
    then show ?thesis using r(1) by (metis imageI)
  qed
  then have "{k. supplyIdExists st (?cand k)} \<subseteq> ?num ` sr_supply_id ` set (supply_records st)"
    by blast
  then show ?thesis by (rule finite_subset) simp
qed

termination generateSupplyId_loop
proof (relation "measure (\<lambda>(st, baseId, supplyId, counter).
          card {k. counter \<le> k \<and> supplyIdExists st (baseId @ ''-'' @ padStart 2 CHR ''0'' (toString k))}
          + (if supplyIdExists st supplyId then 1 else 0))", goal_cases)
  case 1
  show ?case by simp
next
  case (2 st baseId supplyId counter)
  let ?E = "\<lambda>k. supplyIdExists st (baseId @ ''-'' @ padStart 2 CHR ''0'' (toString k))"
  let ?A = "{k. counter \<le> k \<and> ?E k}"
  let ?A' = "{k. counter + 1 \<le> k \<and> ?E k}"
  have fin: "finite ?A'"
    by (rule finite_subset [OF _ suffix_candidates_finite [of st baseId]]) blast
  have "?A = ?A' \<union> {k. k = counter \<and> ?E k}"
    by (auto simp: Suc_le_eq le_less)
  moreover have "{k. k = counter \<and> ?E k} = (if ?E counter then {counter} else {})"
    by auto
  ultimately have split: "?A = ?A' \<union> (if ?E counter then {counter} else {})"
    by simp
  have "card ?A = card ?A' + (if ?E counter then 1 else 0)"
    unfolding split using fin by simp
  then show ?case using 2 by simp
qed

declare generateSupplyId_loop.simps [simp del]

section \<open>Proofs: the edit window\<close>

lemma timeDifference_gt_15:
  "timeDifference now c > 15 \<longleftrightarrow> now - c > 900000"
proof -
  have "timeDifference now c > 15 \<longleftrightarrow> (of_int (now - c) :: rat) > 15 * 60000"
    by (simp add: timeDifference_def pos_less_divide_eq)
  also have "\<dots> \<longleftrightarrow> (of_int (now - c) :: rat) > of_int 900000"
    by simp
  also have "\<dots> \<longleftrightarrow> now - c > 900000"
    by (simp only: of_int_less_iff)
  finally show ?thesis .
qed

lemma find_map_same_id:
  assumes "\<And>r. sr_id (f r) = sr_id r"
  shows "find (\<lambda>r. sr_id r = i) (map (\<lambda>r. if sr_id r = i then f r else r) xs)
         = map_option f (find (\<lambda>r. sr_id r = i) xs)"
  using assms by (induction xs) auto

lemma sr_id_apply_update: "sr_id (apply_update d now r) = sr_id r"
  by (simp add: apply_update_def)

lemma updateSupplyRecord_cases:
  assumes "find_supply st i = Some r"
  shows "updateSupplyRecord st now i d =
           (if now - sr_created_at r > 900000 then Inl EditWindowExpired
            else if no_fields d then Inl NoFieldsToUpdate
            else Inr (apply_update d now r,
                      st\<lparr>supply_records :=
                           map (\<lambda>x. if sr_id x = i then apply_update d now x else x)
                             (supply_records st)\<rparr>))"
proof -
  have "find (\<lambda>x. sr_id x = i)
          (map (\<lambda>x. if sr_id x = i then apply_update d now x else x) (supply_records st))
        = Some (apply_update d now r)"
    using assms find_map_same_id [of "apply_update d now" i "supply_records st"]
    by (simp add: find_supply_def sr_id_apply_update)
  then show ?thesis
    using assms
    by (simp add: updateSupplyRecord_def timeDifference_gt_15 find_supply_def Let_def)
qed

lemma deleteSupplyRecord_cases:
  assumes "find_supply st i = Some r"
  shows "deleteSupplyRecord st now i =
           (if now - sr_created_at r > 900000 then Inl FailedToDeleteSupplyRecord
            else Inr (st\<lparr>supply_records := filter (\<lambda>x. sr_id x \<noteq> i) (supply_records st),
                          payments := filter (\<lambda>p. p_supply_record_id p \<noteq> i) (payments st)\<rparr>))"
  using assms
  by (simp add: deleteSupplyRecord_def deleteSupplyRecord_inner_def timeDifference_gt_15)

text \<open>
  C5, as the code has it. For a record that exists, \<^verbatim>\<open>updateSupplyRecord\<close> (given at least
  one field) throws the edit-window error exactly when strictly more than 15 minutes
  (900000 ms) have passed since \<^verbatim>\<open>created_at\<close>, and \<^verbatim>\<open>deleteSupplyRecord\<close> fails
  exactly then; at exactly 15 minutes and at every earlier moment both succeed.
\<close>

theorem C5_edit_window_strict:
  assumes "find_supply st i = Some r" and "\<not> no_fields d"
  shows "(updateSupplyRecord st now i d = Inl EditWindowExpired
            \<longleftrightarrow> now - sr_created_at r > 900000)
       \<and> ((\<exists>r' st'. updateSupplyRecord st now i d = Inr (r', st'))
            \<longleftrightarrow> now - sr_created_at r \<le> 900000)
       \<and> ((\<exists>e. deleteSupplyRecord st now i = Inl e) \<longleftrightarrow> now - sr_created_at r > 900000)
       \<and> ((\<exists>st'. deleteSupplyRecord st now i = Inr st') \<longleftrightarrow> now - sr_created_at r \<le> 900000)"
  using assms
  by (auto simp: updateSupplyRecord_cases [OF assms(1)] deleteSupplyRecord_cases [OF assms(1)])

lemma ex_find: "find_supply ex_store 3 = Some ex_record"
  by (simp add: find_supply_def ex_store_def ex_record_def)

lemma ex_fields: "\<not> no_fields ex_update"
  by (simp add: no_fields_def ex_update_def)

theorem C5_edit_window_strict_witness:
  "find_supply ex_store 3 = Some ex_record \<and> \<not> no_fields ex_update
   \<and> updateSupplyRecord ex_store 900001 3 ex_update = Inl EditWindowExpired
   \<and> (\<exists>r' st'. updateSupplyRecord ex_store 899999 3 ex_update = Inr (r', st'))
   \<and> (\<exists>e. deleteSupplyRecord ex_store 900001 3 = Inl e)
   \<and> (\<exists>st'. deleteSupplyRecord ex_store 899999 3 = Inr st')"
  using C5_edit_window_strict [OF ex_find ex_fields, of 900001]
    C5_edit_window_strict [OF ex_find ex_fields, of 899999]
  by (simp add: ex_find ex_fields ex_record_def)

text \<open>
  C5 as stated treats the boundary, exactly 15 minutes 0 seconds after \<^verbatim>\<open>created_at\<close>,
  as expired. On the code both operations still succeed there: the record of
  \<open>ex_store\<close> was created at instant 0 and is edited and deleted at instant 900000.
\<close>

theorem C5_boundary_counterexample:
  "timeDifference 900000 (sr_created_at ex_record) = 15
   \<and> (\<exists>r' st'. updateSupplyRecord ex_store 900000 3 ex_update = Inr (r', st'))
   \<and> (\<exists>st'. deleteSupplyRecord ex_store 900000 3 = Inr st')"
  by (simp add: updateSupplyRecord_cases [OF ex_find] deleteSupplyRecord_cases [OF ex_find]
      ex_fields timeDifference_def ex_record_def)

section \<open>Proofs: the stock pool\<close>































lemma same_but_quantity_refl: "same_but_quantity r r"
  by (simp add: same_but_quantity_def)

lemma same_but_quantity_trans:
  "same_but_quantity a b \<Longrightarrow> same_but_quantity b c \<Longrightarrow> same_but_quantity a c"
  by (simp add: same_but_quantity_def)

lemma update_supply_quantity_same:
  "list_all2 same_but_quantity (supply_records st)
     (supply_records (update_supply_quantity st now i q))"
  by (simp add: update_supply_quantity_def list_all2_map2 list_all2_same same_but_quantity_def)

lemma update_supply_quantity_others:
  "users (update_supply_quantity st now i q) = users st"
  "inventory_rows (update_supply_quantity st now i q) = inventory_rows st"
  "production_data (update_supply_quantity st now i q) = production_data st"
  "payments (update_supply_quantity st now i q) = payments st"
  by (simp_all add: update_supply_quantity_def)

lemma deduct_supply_frame:
  "list_all2 same_but_quantity (supply_records st)
     (supply_records (snd (deduct_supply now rows need st)))
   \<and> users (snd (deduct_supply now rows need st)) = users st
   \<and> inventory_rows (snd (deduct_supply now rows need st)) = inventory_rows st
   \<and> production_data (snd (deduct_supply now rows need st)) = production_data st
   \<and> payments (snd (deduct_supply now rows need st)) = payments st"
proof (induction rows arbitrary: need st)
  case Nil
  show ?case by (simp add: list_all2_same same_but_quantity_refl)
next
  case (Cons r rest)
  let ?d = "min (sr_quantity_kg r) need"
  let ?st1 = "update_supply_quantity st now (sr_id r) (sr_quantity_kg r - ?d)"
  consider (stop) "need \<le> 0" | (take) "0 < need" "0 < sr_quantity_kg r"
    | (skip) "0 < need" "\<not> 0 < sr_quantity_kg r"
    by linarith
  then show ?case
  proof cases
    case stop
    then show ?thesis by (simp add: list_all2_same same_but_quantity_refl)
  next
    case take
    then have step: "deduct_supply now (r # rest) need st = deduct_supply now rest (need - ?d) ?st1"
      by (simp add: Let_def)
    have "list_all2 same_but_quantity (supply_records st)
            (supply_records (snd (deduct_supply now rest (need - ?d) ?st1)))"
      using list_all2_trans [of same_but_quantity same_but_quantity same_but_quantity,
          OF _ update_supply_quantity_same [of st now "sr_id r" "sr_quantity_kg r - ?d"]]
        same_but_quantity_trans Cons.IH [where need="need - ?d" and st="?st1"]
      by blast
    then show ?thesis
      unfolding step using Cons.IH [where need="need - ?d" and st="?st1"]
      by (simp add: update_supply_quantity_others)
  next
    case skip
    then have step: "deduct_supply now (r # rest) need st = deduct_supply now rest need st"
      by (simp add: Let_def)
    show ?thesis unfolding step by (rule Cons.IH)
  qed
qed































text \<open>
  C10. The deduction loop of \<^verbatim>\<open>createInventory\<close> leaves every table but
  \<^verbatim>\<open>supply_records\<close> as it was, and in each supply record every field but
  \<^verbatim>\<open>quantity_kg\<close> and \<^verbatim>\<open>updated_at\<close>: \<^verbatim>\<open>remaining_quantity_kg\<close>, \<^verbatim>\<open>unit_price\<close>,
  \<^verbatim>\<open>total_payment\<close>, \<^verbatim>\<open>payment_status\<close> and the rest are unchanged. So a record whose
  \<^verbatim>\<open>total_payment\<close> was \<open>quantity_kg \<times> unit_price\<close>, at a unit price other than 0, no
  longer satisfies that equation once its quantity has changed.
\<close>

theorem C10_deduction_frame:
  "list_all2
     (\<lambda>r r'. sr_id r' = sr_id r \<and> sr_supply_id r' = sr_supply_id r
        \<and> sr_supplier_id r' = sr_supplier_id r
        \<and> sr_remaining_quantity_kg r' = sr_remaining_quantity_kg r
        \<and> sr_unit_price r' = sr_unit_price r \<and> sr_total_payment r' = sr_total_payment r
        \<and> sr_payment_method r' = sr_payment_method r
        \<and> sr_payment_status r' = sr_payment_status r
        \<and> sr_supply_date r' = sr_supply_date r \<and> sr_notes r' = sr_notes r
        \<and> sr_created_at r' = sr_created_at r
        \<and> (sr_quantity_kg r' \<noteq> sr_quantity_kg r \<and> sr_unit_price r \<noteq> 0
             \<and> sr_total_payment r = sr_quantity_kg r * sr_unit_price r
            \<longrightarrow> sr_total_payment r' \<noteq> sr_quantity_kg r' * sr_unit_price r'))
     (supply_records st) (supply_records (snd (deduct_supply now rows need st)))
   \<and> users (snd (deduct_supply now rows need st)) = users st
   \<and> inventory_rows (snd (deduct_supply now rows need st)) = inventory_rows st
   \<and> production_data (snd (deduct_supply now rows need st)) = production_data st
   \<and> payments (snd (deduct_supply now rows need st)) = payments st"
proof -
  have fields: "sr_id r' = sr_id r \<and> sr_supply_id r' = sr_supply_id r
        \<and> sr_supplier_id r' = sr_supplier_id r
        \<and> sr_remaining_quantity_kg r' = sr_remaining_quantity_kg r
        \<and> sr_unit_price r' = sr_unit_price r \<and> sr_total_payment r' = sr_total_payment r
        \<and> sr_payment_method r' = sr_payment_method r
        \<and> sr_payment_status r' = sr_payment_status r
        \<and> sr_supply_date r' = sr_supply_date r \<and> sr_notes r' = sr_notes r
        \<and> sr_created_at r' = sr_created_at r"
    if "same_but_quantity r r'" for r r'
  proof -
    have "r'\<lparr>sr_quantity_kg := 0, sr_updated_at := 0\<rparr> = r\<lparr>sr_quantity_kg := 0, sr_updated_at := 0\<rparr>"
      using that by (simp add: same_but_quantity_def)
    then have "f (r'\<lparr>sr_quantity_kg := 0, sr_updated_at := 0\<rparr>)
             = f (r\<lparr>sr_quantity_kg := 0, sr_updated_at := 0\<rparr>)" for f :: "supply_record \<Rightarrow> 'b"
      by simp
    from this [of sr_id] this [of sr_supply_id] this [of sr_supplier_id]
      this [of sr_remaining_quantity_kg] this [of sr_unit_price] this [of sr_total_payment]
      this [of sr_payment_method] this [of sr_payment_status] this [of sr_supply_date]
      this [of sr_notes] this [of sr_created_at]
    show ?thesis by simp
  qed
  have "list_all2 same_but_quantity (supply_records st)
          (supply_records (snd (deduct_supply now rows need st)))"
    using deduct_supply_frame by blast
  then have "list_all2
     (\<lambda>r r'. sr_id r' = sr_id r \<and> sr_supply_id r' = sr_supply_id r
        \<and> sr_supplier_id r' = sr_supplier_id r
        \<and> sr_remaining_quantity_kg r' = sr_remaining_quantity_kg r
        \<and> sr_unit_price r' = sr_unit_price r \<and> sr_total_payment r' = sr_total_payment r
        \<and> sr_payment_method r' = sr_payment_method r
        \<and> sr_payment_status r' = sr_payment_status r
        \<and> sr_supply_date r' = sr_supply_date r \<and> sr_notes r' = sr_notes r
        \<and> sr_created_at r' = sr_created_at r
        \<and> (sr_quantity_kg r' \<noteq> sr_quantity_kg r \<and> sr_unit_price r \<noteq> 0
             \<and> sr_total_payment r = sr_quantity_kg r * sr_unit_price r
            \<longrightarrow> sr_total_payment r' \<noteq> sr_quantity_kg r' * sr_unit_price r'))
     (supply_records st) (supply_records (snd (deduct_supply now rows need st)))"
  proof (rule list_all2_mono)
    fix r r' assume "same_but_quantity r r'"
    from fields [OF this]
    show "sr_id r' = sr_id r \<and> sr_supply_id r' = sr_supply_id r
        \<and> sr_supplier_id r' = sr_supplier_id r
        \<and> sr_remaining_quantity_kg r' = sr_remaining_quantity_kg r
        \<and> sr_unit_price r' = sr_unit_price r \<and> sr_total_payment r' = sr_total_payment r
        \<and> sr_payment_method r' = sr_payment_method r
        \<and> sr_payment_status r' = sr_payment_status r
        \<and> sr_supply_date r' = sr_supply_date r \<and> sr_notes r' = sr_notes r
        \<and> sr_created_at r' = sr_created_at r
        \<and> (sr_quantity_kg r' \<noteq> sr_quantity_kg r \<and> sr_unit_price r \<noteq> 0
             \<and> sr_total_payment r = sr_quantity_kg r * sr_unit_price r
            \<longrightarrow> sr_total_payment r' \<noteq> sr_quantity_kg r' * sr_unit_price r')"
      by auto
  qed
  then show ?thesis using deduct_supply_frame [of st now rows need] by simp
qed

text \<open>
  The theorem at \<open>ex_supplies\<close> and 120 kg: the newer record keeps
  \<^verbatim>\<open>total_payment\<close> 2500 and \<^verbatim>\<open>remaining_quantity_kg\<close> 50 while its quantity drops to 30
  (30 \<times> 50 = 1500).
\<close>

theorem C10_deduction_frame_witness:
  "supply_records (snd (deduct_supply 600000 [ex_record, ex_record_b] 120 ex_supplies))
     = [ex_record_b\<lparr>sr_quantity_kg := 30, sr_updated_at := 600000\<rparr>,
        ex_record\<lparr>sr_quantity_kg := 0, sr_updated_at := 600000\<rparr>]
   \<and> sr_total_payment ex_record_b = sr_quantity_kg ex_record_b * sr_unit_price ex_record_b
   \<and> sr_total_payment (ex_record_b\<lparr>sr_quantity_kg := 30, sr_updated_at := 600000\<rparr>) = 2500
   \<and> sr_quantity_kg (ex_record_b\<lparr>sr_quantity_kg := 30, sr_updated_at := 600000\<rparr>)
       * sr_unit_price (ex_record_b\<lparr>sr_quantity_kg := 30, sr_updated_at := 600000\<rparr>) = 1500
   \<and> sr_remaining_quantity_kg (ex_record_b\<lparr>sr_quantity_kg := 30, sr_updated_at := 600000\<rparr>) = 50"
  using C10_deduction_frame [of ex_supplies 600000 "[ex_record, ex_record_b]" 120]
  by (simp add: ex_supplies_def ex_record_def ex_record_b_def update_supply_quantity_def)

section \<open>Proofs: the payment reconciler\<close>

lemma set_limited: "set (limited filters rows) \<subseteq> set rows"
  by (auto simp: limited_def dest: in_set_takeD)

lemma findAllPayments_sources:
  assumes "e \<in> set (findAllPayments st filters)"
  shows "(\<exists>p \<in> set (payments st). e = payment_row p)
       \<or> (\<exists>sr \<in> set (supply_records st). e = supply_row sr \<and> sr_payment_status sr \<noteq> Paid
                  \<and> \<not> has_payment st (sr_id sr))"
proof -
  define ps where "ps = limited filters (rev (sort_key p_created_at
               (filter (payment_matches st filters) (payments st))))"
  define srs where "srs = limited filters (rev (sort_key sr_created_at
               (filter (\<lambda>sr. sr_payment_status sr \<noteq> Paid \<and> \<not> has_payment st (sr_id sr)
                               \<and> supply_matches st filters sr) (supply_records st))))"
  have ps: "set ps \<subseteq> set (payments st)"
    unfolding ps_def using set_limited [of filters] by fastforce
  have srs: "set srs \<subseteq> {sr \<in> set (supply_records st). sr_payment_status sr \<noteq> Paid
                  \<and> \<not> has_payment st (sr_id sr)}"
    unfolding srs_def using set_limited [of filters] by fastforce
  have "findAllPayments st filters
        = limited filters (sort_key (\<lambda>e. - e_created_at e) (map payment_row ps @ map supply_row srs))"
    by (simp add: findAllPayments_def Let_def ps_def srs_def)
  then have "e \<in> set (sort_key (\<lambda>e. - e_created_at e) (map payment_row ps @ map supply_row srs))"
    using assms set_limited by fastforce
  then have "e \<in> payment_row ` set ps \<or> e \<in> supply_row ` set srs"
    by simp
  then show ?thesis
  proof
    assume "e \<in> payment_row ` set ps"
    then show ?thesis using ps by blast
  next
    assume "e \<in> supply_row ` set srs"
    then show ?thesis using srs by blast
  qed
qed

text \<open>
  C3. Whatever the filters, an entry of \<^verbatim>\<open>findAllPayments\<close> with
  \<^verbatim>\<open>source = supply_record\<close> is for a supply record that no row of \<^verbatim>\<open>payments\<close>
  references; hence no supply record is in one result both as a payment row and as a
  synthetic entry.
\<close>

theorem C3_no_synthetic_for_paid:
  "(\<forall>e \<in> set (findAllPayments st filters).
      e_source e = FromSupplyRecord \<longrightarrow>
        \<not> (\<exists>p \<in> set (payments st). p_supply_record_id p = e_supply_record_id e))
   \<and> (\<forall>e \<in> set (findAllPayments st filters). \<forall>e' \<in> set (findAllPayments st filters).
        e_source e = FromPayment \<and> e_source e' = FromSupplyRecord \<longrightarrow>
          e_supply_record_id e \<noteq> e_supply_record_id e')"
proof -
  have a: "\<not> (\<exists>p \<in> set (payments st). p_supply_record_id p = e_supply_record_id e)"
    if e: "e \<in> set (findAllPayments st filters)" and src: "e_source e = FromSupplyRecord" for e
  proof -
    from findAllPayments_sources [OF e]
    obtain sr where "e = supply_row sr" "\<not> has_payment st (sr_id sr)"
      using src by (auto simp: payment_row_def)
    then show ?thesis by (simp add: has_payment_def supply_row_def)
  qed
  have b: "\<exists>p \<in> set (payments st). p_supply_record_id p = e_supply_record_id e"
    if e: "e \<in> set (findAllPayments st filters)" and src: "e_source e = FromPayment" for e
  proof -
    from findAllPayments_sources [OF e]
    obtain p where "p \<in> set (payments st)" "e = payment_row p"
      using src by (auto simp: supply_row_def)
    then show ?thesis by (auto simp: payment_row_def)
  qed
  show ?thesis
  proof (intro conjI ballI impI)
    fix e assume "e \<in> set (findAllPayments st filters)" "e_source e = FromSupplyRecord"
    then show "\<not> (\<exists>p \<in> set (payments st). p_supply_record_id p = e_supply_record_id e)"
      by (rule a)
  next
    fix e e' assume e: "e \<in> set (findAllPayments st filters)"
      and e': "e' \<in> set (findAllPayments st filters)"
      and src: "e_source e = FromPayment \<and> e_source e' = FromSupplyRecord"
    from b [OF e] src obtain p where p: "p \<in> set (payments st)"
      "p_supply_record_id p = e_supply_record_id e" by blast
    show "e_supply_record_id e \<noteq> e_supply_record_id e'"
    proof
      assume "e_supply_record_id e = e_supply_record_id e'"
      then have "\<exists>p \<in> set (payments st). p_supply_record_id p = e_supply_record_id e'"
        using p by auto
      then show False using a [OF e'] src by simp
    qed
  qed
qed

lemma ex_listing:
  "findAllPayments ex_ledger no_filters = [supply_row ex_unpaid_record, payment_row ex_payment]"
  by (simp add: findAllPayments_def ex_ledger_def no_filters_def limited_def given_def
      payment_matches_def supply_matches_def given_text_def has_payment_def
      ex_paid_record_def ex_unpaid_record_def ex_payment_def supply_row_def payment_row_def)

text \<open>
  The theorem at \<open>ex_ledger\<close>: record 3 has a payment row and appears through it only;
  record 4 has none and appears as the synthetic entry.
\<close>

theorem C3_no_synthetic_for_paid_witness:
  "findAllPayments ex_ledger no_filters = [supply_row ex_unpaid_record, payment_row ex_payment]
   \<and> e_source (supply_row ex_unpaid_record) = FromSupplyRecord
   \<and> e_supply_record_id (supply_row ex_unpaid_record) = 4
   \<and> e_supply_record_id (payment_row ex_payment) = 3
   \<and> list_all (\<lambda>p. p_supply_record_id p \<noteq> 4) (payments ex_ledger)"
  using C3_no_synthetic_for_paid [of ex_ledger no_filters]
  by (simp add: ex_listing) (simp add: supply_row_def payment_row_def ex_unpaid_record_def
      ex_payment_def ex_ledger_def)

lemma completed_total_double_counts:
  "total_completed_amount (getPaymentStatistics st no_filters)
   = completed_total_spec st
     + SUM_when (\<lambda>sr. sr_payment_status sr = Paid \<and> has_payment st (sr_id sr))
         sr_total_payment (supply_records st)"
proof -
  have "sum_list (map (\<lambda>r. if c r then x r else 0) rows)
        = sum_list (map (\<lambda>r. if c r \<and> \<not> h r then x r else 0) rows)
          + sum_list (map (\<lambda>r. if c r \<and> h r then x r else (0::rat)) rows)"
    for c h :: "supply_record \<Rightarrow> bool" and x rows
    by (induction rows) auto
  then show ?thesis
    by (simp add: getPaymentStatistics_def completed_total_spec_def SUM_when_def no_filters_def
        stat_payment_matches_def stat_supply_matches_def given_def Let_def)
qed

text \<open>
  C4 on the code. In \<open>ex_ledger\<close> supply record 3 (\<^verbatim>\<open>total_payment\<close> 300) is paid and
  has the completed payment of 300 that paid it. \<^verbatim>\<open>getPaymentStatistics\<close> adds the
  \<^verbatim>\<open>total_payment\<close> of every paid supply record to the completed payments and
  answers 600; the total the claim describes is 300.
\<close>

theorem C4_paid_record_counted_twice:
  "total_completed_amount (getPaymentStatistics ex_ledger no_filters) = 600
   \<and> completed_total_spec ex_ledger = 300"
  by (simp add: getPaymentStatistics_def completed_total_spec_def SUM_when_def no_filters_def
      stat_payment_matches_def stat_supply_matches_def given_def Let_def has_payment_def
      ex_ledger_def ex_paid_record_def ex_unpaid_record_def ex_payment_def)

text \<open>
  The two totals of the theorem differ.
\<close>

theorem C4_paid_record_counted_twice_witness:
  "total_completed_amount (getPaymentStatistics ex_ledger no_filters)
     \<noteq> completed_total_spec ex_ledger"
  using C4_paid_record_counted_twice by simp

section \<open>Proofs: creating a supply record\<close>


lemma createSupplyRecord_persists:
  assumes "SupplierController_createSupplyRecord st clock now body = Inr (sid, st')"
  shows "\<exists>r Q P. supply_records st' = supply_records st @ [r]
           \<and> (if truthy (sb_quantity_kg body) then sb_quantity_kg body else sb_quantity body) = Some Q
           \<and> sb_unit_price body = Some P
           \<and> sr_supply_id r = Some sid \<and> sr_quantity_kg r = Q
           \<and> sr_remaining_quantity_kg r = 0 \<and> sr_unit_price r = P
           \<and> sr_total_payment r = Q * P"
  using assms
  by (auto simp: SupplierController_createSupplyRecord_def SupplierModel_createSupplyRecord_def
      Let_def truthy_def split: if_splits)



section \<open>Proofs: the deactivation sweep\<close>

lemma recent_iff:
  "u_id u \<in> set (recent st clk) \<longleftrightarrow>
     (\<exists>r \<in> set (supply_records st). sr_supplier_id r = u_id u
          \<and> sc_date_six_months_ago clk \<le> sr_supply_date r)"
proof
  assume "u_id u \<in> set (recent st clk)"
  then obtain r where "r \<in> set (supply_records st)"
      "sc_date_six_months_ago clk \<le> sr_supply_date r" "u_id u = sr_supplier_id r"
    by (auto simp: recent_def)
  then show "\<exists>r \<in> set (supply_records st). sr_supplier_id r = u_id u
          \<and> sc_date_six_months_ago clk \<le> sr_supply_date r"
    by auto
next
  assume "\<exists>r \<in> set (supply_records st). sr_supplier_id r = u_id u
          \<and> sc_date_six_months_ago clk \<le> sr_supply_date r"
  then obtain r where r: "r \<in> set (supply_records st)"
      "sc_date_six_months_ago clk \<le> sr_supply_date r" "sr_supplier_id r = u_id u"
    by auto
  have "set (recent st clk) = sr_supplier_id `
          {x \<in> set (supply_records st). sc_date_six_months_ago clk \<le> sr_supply_date x}"
    by (simp add: recent_def)
  moreover have "sr_supplier_id r \<in> sr_supplier_id `
          {x \<in> set (supply_records st). sc_date_six_months_ago clk \<le> sr_supply_date x}"
    using r(1,2) by blast
  ultimately have "sr_supplier_id r \<in> set (recent st clk)"
    by simp
  then show "u_id u \<in> set (recent st clk)" using r(3) by simp
qed

text \<open>
  The sweep, as the code has it. \<^verbatim>\<open>deactivateOldSuppliers\<close> changes a user exactly when
  the user is a supplier, is active, was created at or before the instant six months ago
  (\<^verbatim>\<open>created_at <= DATE_SUB(NOW(), INTERVAL 6 MONTH)\<close>) and has no supply record dated on
  or after the day six months ago; the change sets \<^verbatim>\<open>status\<close> to inactive (and
  \<^verbatim>\<open>updated_at\<close>). Every other user and every other table is unchanged, the result
  is the number of users that went from active to inactive, and a second run at the
  same clock on the resulting store deactivates 0 and changes nothing.
\<close>

theorem deactivateOldSuppliers_sweep:
  "list_all2
     (\<lambda>u u'. if u_role u = Supplier \<and> u_status u = Active
                  \<and> u_created_at u \<le> sc_six_months_ago clk
                  \<and> \<not> (\<exists>r \<in> set (supply_records st). sr_supplier_id r = u_id u
                           \<and> sc_date_six_months_ago clk \<le> sr_supply_date r)
              then u' = u\<lparr>u_status := Inactive, u_updated_at := sc_now clk\<rparr>
              else u' = u)
     (users st) (users (snd (deactivateOldSuppliers st clk)))
   \<and> fst (deactivateOldSuppliers st clk)
       = length (filter (\<lambda>(u, u'). u_status u = Active \<and> u_status u' = Inactive)
                   (zip (users st) (users (snd (deactivateOldSuppliers st clk)))))
   \<and> supply_records (snd (deactivateOldSuppliers st clk)) = supply_records st
   \<and> inventory_rows (snd (deactivateOldSuppliers st clk)) = inventory_rows st
   \<and> production_data (snd (deactivateOldSuppliers st clk)) = production_data st
   \<and> payments (snd (deactivateOldSuppliers st clk)) = payments st
   \<and> deactivateOldSuppliers (snd (deactivateOldSuppliers st clk)) clk
       = (0, snd (deactivateOldSuppliers st clk))"
proof -
  let ?m = "sweep_matches st clk"
  let ?f = "\<lambda>u. if ?m u then u\<lparr>u_status := Inactive, u_updated_at := sc_now clk\<rparr> else u"
  let ?st' = "snd (deactivateOldSuppliers st clk)"
  have st': "?st' = st\<lparr>users := map ?f (users st)\<rparr>"
    by (simp add: deactivateOldSuppliers_def)
  have m: "?m u \<longleftrightarrow> u_role u = Supplier \<and> u_status u = Active
                  \<and> u_created_at u \<le> sc_six_months_ago clk
                  \<and> \<not> (\<exists>r \<in> set (supply_records st). sr_supplier_id r = u_id u
                           \<and> sc_date_six_months_ago clk \<le> sr_supply_date r)" for u
    by (simp add: sweep_matches_def recent_iff)
  have rel: "list_all2
     (\<lambda>u u'. if u_role u = Supplier \<and> u_status u = Active
                  \<and> u_created_at u \<le> sc_six_months_ago clk
                  \<and> \<not> (\<exists>r \<in> set (supply_records st). sr_supplier_id r = u_id u
                           \<and> sc_date_six_months_ago clk \<le> sr_supply_date r)
              then u' = u\<lparr>u_status := Inactive, u_updated_at := sc_now clk\<rparr>
              else u' = u)
     (users st) (users ?st')"
    unfolding st' by (auto simp: list_all2_map2 list_all2_same m)
  have "filter (\<lambda>(u, u'). u_status u = Active \<and> u_status u' = Inactive) (zip xs (map ?f xs))
        = zip (filter ?m xs) (map ?f (filter ?m xs))" for xs
    by (induction xs) (auto simp: sweep_matches_def)
  then have count: "fst (deactivateOldSuppliers st clk)
       = length (filter (\<lambda>(u, u'). u_status u = Active \<and> u_status u' = Inactive)
                   (zip (users st) (users ?st')))"
    unfolding st' by (simp add: deactivateOldSuppliers_def)
  have m': "sweep_matches ?st' clk u \<longleftrightarrow> ?m u" for u
    unfolding st' by (simp add: sweep_matches_def recent_def)
  have none: "\<not> ?m (?f u)" for u
    by (simp add: sweep_matches_def)
  have all_none: "\<forall>x \<in> set (users ?st'). \<not> ?m x"
  proof
    fix x assume "x \<in> set (users ?st')"
    then have "x \<in> ?f ` set (users st)" unfolding st' by simp
    then obtain u where "x = ?f u" by (rule imageE)
    then show "\<not> ?m x" using none [of u] by simp
  qed
  have again: "deactivateOldSuppliers ?st' clk = (0, ?st')"
  proof -
    have "filter (sweep_matches ?st' clk) (users ?st') = []"
      unfolding m' using all_none by (simp only: filter_empty_conv)
    moreover have "map (\<lambda>u. if sweep_matches ?st' clk u
                             then u\<lparr>u_status := Inactive, u_updated_at := sc_now clk\<rparr>
                             else u) (users ?st') = users ?st'"
      unfolding m' using all_none by (intro map_idI) simp
    ultimately show ?thesis
      by (simp add: deactivateOldSuppliers_def [of ?st'])
  qed
  show ?thesis
    using rel count again by (simp add: st')
qed

lemma ex_sweep_result:
  "deactivateOldSuppliers ex_sweep_store ex_sweep_clock =
     (2, ex_sweep_store\<lparr>users :=
           [ex_at_cutoff\<lparr>u_status := Inactive, u_updated_at := 5000\<rparr>, ex_delivering,
            ex_dormant\<lparr>u_status := Inactive, u_updated_at := 5000\<rparr>, ex_manager]\<rparr>)"
  by (simp add: deactivateOldSuppliers_def sweep_matches_def recent_def ex_sweep_store_def
      ex_sweep_clock_def ex_at_cutoff_def ex_delivering_def ex_dormant_def ex_manager_def
      ex_record_def ex_record_b_def)

text \<open>
  The theorem at \<open>ex_sweep_store\<close>: two of the four users are deactivated, and the
  second run finds none.
\<close>

theorem deactivateOldSuppliers_sweep_witness:
  "fst (deactivateOldSuppliers ex_sweep_store ex_sweep_clock) = 2
   \<and> map u_status (users (snd (deactivateOldSuppliers ex_sweep_store ex_sweep_clock)))
       = [Inactive, Active, Inactive, Active]
   \<and> deactivateOldSuppliers (snd (deactivateOldSuppliers ex_sweep_store ex_sweep_clock))
         ex_sweep_clock
       = (0, snd (deactivateOldSuppliers ex_sweep_store ex_sweep_clock))"
  using deactivateOldSuppliers_sweep [of ex_sweep_clock ex_sweep_store]
  by (simp add: ex_sweep_result)
    (simp add: ex_at_cutoff_def ex_delivering_def ex_dormant_def ex_manager_def)

text \<open>
  C8 on the code. The claim, like the comment above \<^verbatim>\<open>deactivateOldSuppliers\<close>
  (\<^verbatim>\<open>user.created_at is older than 6 months\<close>), deactivates only suppliers created more
  than six months ago. The first supplier of \<open>ex_sweep_store\<close> was created exactly six
  months ago, not more; the statement's \<^verbatim>\<open><=\<close> admits it and it is deactivated.
\<close>

theorem C8_boundary_deactivated:
  "u_created_at ex_at_cutoff = sc_six_months_ago ex_sweep_clock
   \<and> \<not> u_created_at ex_at_cutoff < sc_six_months_ago ex_sweep_clock
   \<and> users ex_sweep_store ! 0 = ex_at_cutoff
   \<and> users (snd (deactivateOldSuppliers ex_sweep_store ex_sweep_clock)) ! 0
       = ex_at_cutoff\<lparr>u_status := Inactive, u_updated_at := 5000\<rparr>
   \<and> fst (deactivateOldSuppliers ex_sweep_store ex_sweep_clock) = 2"
  by (simp add: ex_sweep_result) (simp add: ex_sweep_store_def ex_at_cutoff_def ex_sweep_clock_def)

text \<open>
  The supplier of the theorem was active before the sweep and is inactive after it.
\<close>

theorem C8_boundary_deactivated_witness:
  "u_status (users ex_sweep_store ! 0) = Active
   \<and> u_status (users (snd (deactivateOldSuppliers ex_sweep_store ex_sweep_clock)) ! 0) = Inactive"
  using C8_boundary_deactivated by (simp add: ex_at_cutoff_def)

section \<open>Proofs: the supplier-id generator\<close>

lemma length_toString_le: "n < 10 ^ k \<Longrightarrow> 0 < k \<Longrightarrow> length (toString n) \<le> k"
proof (induction n arbitrary: k rule: toString.induct)
  case (1 n)
  show ?case
  proof (cases "n < 10")
    case True
    then show ?thesis using "1.prems" by (subst toString.simps) simp
  next
    case False
    then obtain k' where k: "k = Suc k'" using "1.prems" by (cases k) auto
    have "0 < k'" using False "1.prems" k by (cases k') auto
    moreover have "n div 10 < 10 ^ k'" using "1.prems" k by (simp add: less_mult_imp_div_less)
    ultimately have "length (toString (n div 10)) \<le> k'" using "1.IH" False by simp
    then show ?thesis using False k by (subst toString.simps) simp
  qed
qed

lemma length_toString_ge: "10 ^ k \<le> n \<Longrightarrow> Suc k \<le> length (toString n)"
proof (induction n arbitrary: k rule: toString.induct)
  case (1 n)
  show ?case
  proof (cases "n < 10")
    case True
    have "k = 0"
    proof (rule ccontr)
      assume "k \<noteq> 0"
      then have "(10::nat) ^ 1 \<le> 10 ^ k" by (intro power_increasing) auto
      then show False using True "1.prems" by simp
    qed
    then show ?thesis using True by (subst toString.simps) simp
  next
    case False
    show ?thesis
    proof (cases k)
      case 0
      then show ?thesis using False by (subst toString.simps) simp
    next
      case (Suc k')
      then have "10 ^ k' \<le> n div 10" using "1.prems" by (simp add: less_eq_div_iff_mult_less_eq)
      then have "Suc k' \<le> length (toString (n div 10))" using "1.IH" False by simp
      then show ?thesis using False Suc by (subst toString.simps) simp
    qed
  qed
qed

lemma digits_toString: "list_all is_digit (toString n)"
proof (induction n rule: toString.induct)
  case (1 n)
  show ?case
  proof (cases "n < 10")
    case True
    then show ?thesis by (subst toString.simps) (simp add: is_digit_digit_char)
  next
    case False
    then show ?thesis
      using "1.IH" by (subst toString.simps) (simp add: is_digit_digit_char)
  qed
qed

lemma is_digit_zero: "is_digit CHR ''0''"
  by (simp add: is_digit_def)

lemma candidate_conforming:
  assumes "n < 1000000"
  shows "conforming (supplier_candidate n)" and "id_number (supplier_candidate n) = n"
proof -
  have "n < 10 ^ 6" using assms by simp
  then have len: "length (toString n) \<le> 6" by (rule length_toString_le) simp
  then have len6: "length (padStart 6 CHR ''0'' (toString n)) = 6"
    by (simp add: padStart_def)
  have "list_all is_digit (padStart 6 CHR ''0'' (toString n))"
    using digits_toString [of n] by (auto simp: padStart_def is_digit_zero list_all_iff)
  then show "conforming (supplier_candidate n)"
    using len6 by (simp add: conforming_def supplier_candidate_def)
  show "id_number (supplier_candidate n) = n"
    using len6 by (simp add: id_number_def supplier_candidate_def parseDigits_padStart)
qed

lemma maxNumber_ge_aux:
  "m \<le> foldl (\<lambda>m s. if id_number s > m then id_number s else m) m rows
   \<and> (\<forall>s \<in> set rows. id_number s \<le> foldl (\<lambda>m s. if id_number s > m then id_number s else m) m rows)"
proof (induction rows arbitrary: m)
  case Nil
  show ?case by simp
next
  case (Cons s rows)
  let ?m' = "if id_number s > m then id_number s else m"
  have "?m' \<le> foldl (\<lambda>m s. if id_number s > m then id_number s else m) ?m' rows
   \<and> (\<forall>s \<in> set rows. id_number s \<le> foldl (\<lambda>m s. if id_number s > m then id_number s else m) ?m' rows)"
    by (rule Cons.IH)
  then show ?case by auto
qed

lemma maxNumber_ge: "s \<in> set rows \<Longrightarrow> id_number s \<le> maxNumber rows"
  using maxNumber_ge_aux [of 0 rows] by (simp add: maxNumber_def)

lemma scan_member:
  "s \<in> set (scan_supplier_ids st) \<longleftrightarrow>
     (\<exists>u \<in> set (users st). u_supplier_id u = Some s \<and> u_role u = Supplier \<and> s \<noteq> [] \<and> conforming s)"
proof
  assume "s \<in> set (scan_supplier_ids st)"
  then obtain u where "u \<in> set (users st)"
      "s \<in> set (case u_supplier_id u of None \<Rightarrow> []
                | Some s \<Rightarrow> if u_role u = Supplier \<and> s \<noteq> [] \<and> conforming s then [s] else [])"
    by (auto simp: scan_supplier_ids_def)
  then show "\<exists>u \<in> set (users st). u_supplier_id u = Some s \<and> u_role u = Supplier \<and> s \<noteq> []
               \<and> conforming s"
    by (cases "u_supplier_id u") (auto split: if_splits)
next
  assume "\<exists>u \<in> set (users st). u_supplier_id u = Some s \<and> u_role u = Supplier \<and> s \<noteq> []
               \<and> conforming s"
  then obtain u where u: "u \<in> set (users st)" "u_supplier_id u = Some s" "u_role u = Supplier"
      "s \<noteq> []" "conforming s"
    by blast
  then have "s \<in> set (case u_supplier_id u of None \<Rightarrow> []
                | Some s \<Rightarrow> if u_role u = Supplier \<and> s \<noteq> [] \<and> conforming s then [s] else [])"
    by simp
  then show "s \<in> set (scan_supplier_ids st)"
    unfolding scan_supplier_ids_def using u(1) by (simp only: set_concat set_map) blast
qed

lemma supplierId_attempts_found:
  assumes "a \<le> j" and "j < 10"
    and "\<not> supplierIdExists st env (supplier_candidate (nextNumber + j))"
    and "\<forall>i. a \<le> i \<and> i < j \<longrightarrow> supplierIdExists st env (supplier_candidate (nextNumber + i))"
  shows "supplierId_attempts st env nextNumber a sid = (supplier_candidate (nextNumber + j), j)"
  using assms
proof (induction "j - a" arbitrary: a sid)
  case 0
  then have "a = j" by simp
  then show ?case
    using "0.prems" by (subst supplierId_attempts.simps) simp
next
  case (Suc d)
  then have lt: "a < j" by simp
  then have ex: "supplierIdExists st env (supplier_candidate (nextNumber + a))"
    using Suc.prems(4) by simp
  have "supplierId_attempts st env nextNumber (a + 1) (supplier_candidate (nextNumber + a))
        = (supplier_candidate (nextNumber + j), j)"
    using Suc.hyps(2) Suc.prems lt by (intro Suc.hyps(1)) auto
  then show ?case
    using lt Suc.prems(2) ex by (subst supplierId_attempts.simps) simp
qed

lemma supplierId_attempts_exhausted:
  assumes "a \<le> 10"
    and "\<forall>i. a \<le> i \<and> i < 10 \<longrightarrow> supplierIdExists st env (supplier_candidate (nextNumber + i))"
  shows "snd (supplierId_attempts st env nextNumber a sid) = 10"
  using assms
proof (induction "10 - a" arbitrary: a sid)
  case 0
  then have "a = 10" by simp
  then show ?case by (subst supplierId_attempts.simps) simp
next
  case (Suc d)
  then have lt: "a < 10" by simp
  then have ex: "supplierIdExists st env (supplier_candidate (nextNumber + a))"
    using Suc.prems(2) by simp
  have "snd (supplierId_attempts st env nextNumber (a + 1) (supplier_candidate (nextNumber + a))) = 10"
    using Suc.hyps(2) Suc.prems lt by (intro Suc.hyps(1)) auto
  then show ?case
    using lt ex by (subst supplierId_attempts.simps) simp
qed

lemma candidate_shape:
  "supplier_candidate n \<noteq> []" "take 3 (supplier_candidate n) = ''SUP''"
  by (simp_all add: supplier_candidate_def)

lemma generateSupplierId_found:
  assumes "\<not> env_scan_fails env" and "a < 10"
    and "nextNumber = (if scan_supplier_ids st \<noteq> [] then maxNumber (scan_supplier_ids st) + 1 else 1)"
    and "\<not> supplierIdExists st env (supplier_candidate (nextNumber + a))"
    and "\<forall>j < a. supplierIdExists st env (supplier_candidate (nextNumber + j))"
  shows "generateSupplierId st env = supplier_candidate (nextNumber + a)"
proof -
  have "supplierId_attempts st env nextNumber 0 [] = (supplier_candidate (nextNumber + a), a)"
    using assms by (intro supplierId_attempts_found) auto
  then show ?thesis
    using assms(1,2,3) by (simp add: generateSupplierId_def Let_def candidate_shape)
qed

lemma generateSupplierId_exhausted:
  assumes "\<not> env_scan_fails env"
    and "nextNumber = (if scan_supplier_ids st \<noteq> [] then maxNumber (scan_supplier_ids st) + 1 else 1)"
    and "\<forall>j < 10. supplierIdExists st env (supplier_candidate (nextNumber + j))"
  shows "generateSupplierId st env = fallbackId env"
proof -
  have "snd (supplierId_attempts st env nextNumber 0 []) = 10"
    using assms by (intro supplierId_attempts_exhausted) auto
  then show ?thesis
    using assms(1,2) by (simp add: generateSupplierId_def Let_def split_beta)
qed

lemma first_candidate_unused:
  assumes "nextNumber = (if scan_supplier_ids st \<noteq> [] then maxNumber (scan_supplier_ids st) + 1 else 1)"
    and "maxNumber (scan_supplier_ids st) < 999999"
  shows "\<not> (\<exists>u \<in> set (users st). u_supplier_id u = Some (supplier_candidate nextNumber)
               \<and> u_role u = Supplier)"
proof
  assume "\<exists>u \<in> set (users st). u_supplier_id u = Some (supplier_candidate nextNumber)
               \<and> u_role u = Supplier"
  moreover have small: "nextNumber < 1000000" using assms by (simp split: if_splits)
  ultimately have mem: "supplier_candidate nextNumber \<in> set (scan_supplier_ids st)"
    unfolding scan_member using candidate_conforming(1) [OF small] candidate_shape(1) by blast
  then have "nextNumber \<le> maxNumber (scan_supplier_ids st)"
    using maxNumber_ge [OF mem] candidate_conforming(2) [OF small] by simp
  moreover have "scan_supplier_ids st \<noteq> []" using mem by auto
  ultimately show False using assms(1) by simp
qed

lemma fallback_conforming:
  assumes "100000 \<le> env_epoch_ms env"
  shows "conforming (fallbackId env)"
proof -
  have "10 ^ 5 \<le> env_epoch_ms env" using assms by simp
  then have "6 \<le> length (toString (env_epoch_ms env))"
    using length_toString_ge [of 5 "env_epoch_ms env"] by simp
  then have "length (slice_last 6 (toString (env_epoch_ms env))) = 6"
    by (simp add: slice_last_def)
  moreover have "list_all is_digit (slice_last 6 (toString (env_epoch_ms env)))"
    using digits_toString [of "env_epoch_ms env"]
    by (auto simp: slice_last_def list_all_iff dest: in_set_dropD)
  ultimately show ?thesis
    by (simp add: conforming_def fallbackId_def)
qed

text \<open>
  The generator, as the code has it. With \<open>nextNumber\<close> one more than the largest number
  among the suppliers' ids of the form \<^verbatim>\<open>SUP\d{6}\<close> (1 when there is none): if the scan
  succeeds and that largest number is below 999999, the result is \<open>SUP\<close> and
  \<open>nextNumber\<close> padded to six digits; it has the form \<^verbatim>\<open>SUP\d{6}\<close>, no supplier holds
  it, and its number is greater than that of every existing id of the form. In general
  the result is the candidate for \<open>nextNumber + a\<close>, for the first of the ten attempts
  \<open>a\<close> whose candidate is not found taken; when all ten are taken, or the scan fails, it
  is the fallback, \<open>SUP\<close> and the last six characters of the epoch milliseconds, of the
  form \<^verbatim>\<open>SUP\d{6}\<close> for every clock of at least 100000 ms.
\<close>

theorem generateSupplierId_by_cases:
  assumes nxt: "nextNumber = (if scan_supplier_ids st \<noteq> [] then maxNumber (scan_supplier_ids st) + 1 else 1)"
  shows "(\<not> env_scan_fails env \<and> maxNumber (scan_supplier_ids st) < 999999 \<longrightarrow>
            generateSupplierId st env = supplier_candidate nextNumber
          \<and> conforming (generateSupplierId st env)
          \<and> \<not> (\<exists>u \<in> set (users st). u_supplier_id u = Some (generateSupplierId st env)
                   \<and> u_role u = Supplier)
          \<and> id_number (generateSupplierId st env) = nextNumber
          \<and> (\<forall>s \<in> set (scan_supplier_ids st). id_number s < id_number (generateSupplierId st env)))
       \<and> (\<not> env_scan_fails env \<and> a < 10
            \<and> \<not> supplierIdExists st env (supplier_candidate (nextNumber + a))
            \<and> (\<forall>j < a. supplierIdExists st env (supplier_candidate (nextNumber + j))) \<longrightarrow>
            generateSupplierId st env = supplier_candidate (nextNumber + a))
       \<and> (\<not> env_scan_fails env
            \<and> (\<forall>j < 10. supplierIdExists st env (supplier_candidate (nextNumber + j))) \<longrightarrow>
            generateSupplierId st env = fallbackId env)
       \<and> (env_scan_fails env \<longrightarrow> generateSupplierId st env = fallbackId env)
       \<and> fallbackId env = ''SUP'' @ slice_last 6 (toString (env_epoch_ms env))
       \<and> (100000 \<le> env_epoch_ms env \<longrightarrow> conforming (fallbackId env))"
proof -
  have normal: "generateSupplierId st env = supplier_candidate nextNumber
          \<and> conforming (generateSupplierId st env)
          \<and> \<not> (\<exists>u \<in> set (users st). u_supplier_id u = Some (generateSupplierId st env)
                   \<and> u_role u = Supplier)
          \<and> id_number (generateSupplierId st env) = nextNumber
          \<and> (\<forall>s \<in> set (scan_supplier_ids st). id_number s < id_number (generateSupplierId st env))"
    if ok: "\<not> env_scan_fails env" and small: "maxNumber (scan_supplier_ids st) < 999999"
  proof -
    have unused: "\<not> (\<exists>u \<in> set (users st). u_supplier_id u = Some (supplier_candidate nextNumber)
               \<and> u_role u = Supplier)"
      using first_candidate_unused [OF nxt small] .
    then have "\<not> supplierIdExists st env (supplier_candidate (nextNumber + 0))"
      by (simp add: supplierIdExists_def)
    then have res: "generateSupplierId st env = supplier_candidate nextNumber"
      using generateSupplierId_found [OF ok _ nxt, of 0] by simp
    have lt: "nextNumber < 1000000" using nxt small by (simp split: if_splits)
    have "\<forall>s \<in> set (scan_supplier_ids st). id_number s < nextNumber"
    proof
      fix s assume s: "s \<in> set (scan_supplier_ids st)"
      then have "scan_supplier_ids st \<noteq> []" by auto
      then show "id_number s < nextNumber" using maxNumber_ge [OF s] nxt by simp
    qed
    then show ?thesis
      using res unused candidate_conforming [OF lt] by simp
  qed
  have scan_failed: "generateSupplierId st env = fallbackId env" if "env_scan_fails env"
    using that by (simp add: generateSupplierId_def)
  have shape: "fallbackId env = ''SUP'' @ slice_last 6 (toString (env_epoch_ms env))"
    by (simp add: fallbackId_def)
  show ?thesis
    using normal generateSupplierId_found [OF _ _ nxt, of env a]
      generateSupplierId_exhausted [OF _ nxt, of env] fallback_conforming [of env]
      scan_failed shape
    by blast
qed


lemma ex_scan: "scan_supplier_ids ex_directory = [''SUP000007'']"
  by (simp add: scan_supplier_ids_def ex_directory_def ex_supplier_def conforming_def is_digit_def)

lemma ex_max: "maxNumber [''SUP000007''] = 7"
  by (simp add: maxNumber_def id_number_def parseDigits_def digit_val_def)

lemma ex_candidate_8: "supplier_candidate 8 = ''SUP000008''"
  by code_simp

lemma ex_fallback: "fallbackId ex_id_env = ''SUP000123''"
  by (simp add: fallbackId_def ex_id_env_def slice_last_def toString.simps digit_char_def)

text \<open>
  The theorem at a directory whose only supplier holds \<^verbatim>\<open>SUP000007\<close>: the next id is
  \<^verbatim>\<open>SUP000008\<close>, and with a failing scan at epoch millisecond 1735722000123 it is
  \<^verbatim>\<open>SUP000123\<close>.
\<close>

theorem generateSupplierId_by_cases_witness:
  "\<not> env_scan_fails ex_id_env \<and> maxNumber (scan_supplier_ids ex_directory) = 7
   \<and> generateSupplierId ex_directory ex_id_env = ''SUP000008''
   \<and> conforming ''SUP000008'' \<and> id_number ''SUP000008'' = 8
   \<and> generateSupplierId ex_directory (ex_id_env\<lparr>env_scan_fails := True\<rparr>) = ''SUP000123''
   \<and> conforming ''SUP000123''"
proof -
  have nxt: "(8::nat) = (if scan_supplier_ids ex_directory \<noteq> []
                       then maxNumber (scan_supplier_ids ex_directory) + 1 else 1)"
    by (simp add: ex_scan ex_max)
  have fb: "fallbackId (ex_id_env\<lparr>env_scan_fails := True\<rparr>) = ''SUP000123''"
    using ex_fallback by (simp add: fallbackId_def)
  have ok: "\<not> env_scan_fails ex_id_env" by (simp add: ex_id_env_def)
  have small: "maxNumber (scan_supplier_ids ex_directory) < 999999"
    by (simp add: ex_scan ex_max)
  have failing: "env_scan_fails (ex_id_env\<lparr>env_scan_fails := True\<rparr>)" by simp
  have late: "100000 \<le> env_epoch_ms (ex_id_env\<lparr>env_scan_fails := True\<rparr>)"
    by (simp add: ex_id_env_def)
  from generateSupplierId_by_cases [OF nxt, of ex_id_env 0] ok small
  have a: "generateSupplierId ex_directory ex_id_env = supplier_candidate 8"
    "conforming (generateSupplierId ex_directory ex_id_env)"
    "id_number (generateSupplierId ex_directory ex_id_env) = 8"
    by blast+
  from generateSupplierId_by_cases [OF nxt, of "ex_id_env\<lparr>env_scan_fails := True\<rparr>" 0] failing late
  have b: "generateSupplierId ex_directory (ex_id_env\<lparr>env_scan_fails := True\<rparr>)
             = fallbackId (ex_id_env\<lparr>env_scan_fails := True\<rparr>)"
    "conforming (fallbackId (ex_id_env\<lparr>env_scan_fails := True\<rparr>))"
    by blast+
  show ?thesis
    using a b ok by (simp add: ex_candidate_8 fb ex_scan ex_max)
qed

text \<open>
  C7 on the code. The claim, like the comment above \<^verbatim>\<open>generateSupplierId\<close>
  (\<^verbatim>\<open>Generate unique supplier ID in format SUP000001\<close>) and the pattern of its own scan,
  gives every result the form \<^verbatim>\<open>SUP\d{6}\<close>. When a supplier holds \<^verbatim>\<open>SUP999999\<close> the
  next number is 1000000, which \<^verbatim>\<open>padStart(6, "0")\<close> leaves at seven digits: the result
  is \<^verbatim>\<open>SUP1000000\<close>, ten characters long and not of the form.
\<close>

theorem C7_seventh_digit:
  "generateSupplierId ex_full_directory ex_id_env = ''SUP1000000''
   \<and> length ''SUP1000000'' = 10
   \<and> \<not> conforming ''SUP1000000''"
proof -
  have scan: "scan_supplier_ids ex_full_directory = [''SUP999999'']"
    by (simp add: scan_supplier_ids_def ex_full_directory_def ex_last_supplier_def
        ex_directory_def ex_supplier_def conforming_def is_digit_def)
  have mx: "maxNumber [''SUP999999''] = 999999"
    by (simp add: maxNumber_def id_number_def parseDigits_def digit_val_def)
  have cand: "supplier_candidate 1000000 = ''SUP1000000''"
    by (simp add: supplier_candidate_def padStart_def toString.simps digit_char_def)
  have nxt: "(1000000::nat) = (if scan_supplier_ids ex_full_directory \<noteq> []
                       then maxNumber (scan_supplier_ids ex_full_directory) + 1 else 1)"
    by (simp add: scan mx)
  have free: "\<not> supplierIdExists ex_full_directory ex_id_env (supplier_candidate (1000000 + 0))"
    by (simp add: cand supplierIdExists_def ex_full_directory_def ex_last_supplier_def
        ex_directory_def ex_supplier_def ex_id_env_def)
  have "generateSupplierId ex_full_directory ex_id_env = supplier_candidate (1000000 + 0)"
    by (rule generateSupplierId_found [OF _ _ nxt free]) (simp_all add: ex_id_env_def)
  then show ?thesis
    by (simp add: cand conforming_def)
qed

text \<open>
  The result of the theorem is not one of the six-digit ids.
\<close>

theorem C7_seventh_digit_witness:
  "length (generateSupplierId ex_full_directory ex_id_env) \<noteq> 9"
  using C7_seventh_digit by simp

section \<open>Proofs: the listings that repair ids\<close>





















end
